theory Spec2Isabelle
  imports
    Complex_Main
    "HOL-Library.Word"
    "HOL-Library.Char_ord"
    "HOL-Library.List_Lexorder"
    "HOL-Library.Sublist"
    "HOL-Library.Log_Nat"
begin

unbundle bit_operations_syntax

chapter \<open>The compare-job pipeline and the spreadsheet diff engine\<close>

text \<open>
  A shallow embedding of the Go backend: the string helpers of the Go standard library the
  code calls, the job record and every mutator handed to the job store, the payment
  notification handler, the stream consumer's acknowledgment rule, and the diff engine
  (scalar normalization, key column inference, key partition and the three sheets).

  A Go \<open>string\<close> is a sequence of bytes; it is modelled by \<^typ>\<open>string\<close>, a list of
  8-bit characters, so \<^const>\<open>length\<close> is Go's \<open>len\<close> and text beyond ASCII is its UTF-8
  encoding.
\<close>

section \<open>The Go standard library, as far as the code uses it\<close>

subsection \<open>strings.TrimSpace\<close>

text \<open>
  \<open>strings.TrimSpace\<close> removes leading and trailing white space as defined by Unicode
  (\<open>unicode.IsSpace\<close>): U+0009..U+000D, U+0020, U+0085, U+00A0, U+1680, U+2000..U+200A,
  U+2028, U+2029, U+202F, U+205F and U+3000. \<open>isSpaceEnc bs\<close> says that the bytes \<open>bs\<close>
  are the UTF-8 encoding of one such rune.
\<close>

definition isASCIISpace :: "char \<Rightarrow> bool" where
  "isASCIISpace c \<longleftrightarrow>
     c = CHR 0x09 \<or> c = CHR 0x0A \<or> c = CHR 0x0B \<or> c = CHR 0x0C \<or> c = CHR 0x0D \<or> c = CHR 0x20"

fun isSpaceEnc :: "string \<Rightarrow> bool" where
  "isSpaceEnc [c] = isASCIISpace c"
| "isSpaceEnc [c, d] = (c = CHR 0xC2 \<and> (d = CHR 0x85 \<or> d = CHR 0xA0))"
| "isSpaceEnc [c, d, e] =
     ((c = CHR 0xE1 \<and> d = CHR 0x9A \<and> e = CHR 0x80) \<or>
      (c = CHR 0xE2 \<and> d = CHR 0x80 \<and>
         ((0x80 \<le> (of_char e :: nat) \<and> (of_char e :: nat) \<le> 0x8A) \<or>
          e = CHR 0xA8 \<or> e = CHR 0xA9 \<or> e = CHR 0xAF)) \<or>
      (c = CHR 0xE2 \<and> d = CHR 0x81 \<and> e = CHR 0x9F) \<or>
      (c = CHR 0xE3 \<and> d = CHR 0x80 \<and> e = CHR 0x80))"
| "isSpaceEnc _ = False"

definition spacePrefixLen :: "string \<Rightarrow> nat" where
  "spacePrefixLen s =
     (if isSpaceEnc (take 1 s) then 1
      else if isSpaceEnc (take 2 s) then 2
      else if isSpaceEnc (take 3 s) then 3
      else 0)"

definition spaceSuffixLen :: "string \<Rightarrow> nat" where
  "spaceSuffixLen s =
     (if isSpaceEnc (drop (length s - 1) s) then 1
      else if isSpaceEnc (drop (length s - 2) s) then 2
      else if isSpaceEnc (drop (length s - 3) s) then 3
      else 0)"

function trimLeftSpace :: "string \<Rightarrow> string" where
  "trimLeftSpace s =
     (if spacePrefixLen s = 0 then s else trimLeftSpace (drop (spacePrefixLen s) s))"
  by pat_completeness auto
termination
proof (relation "measure length")
  show "wf (measure (length :: string \<Rightarrow> nat))" by simp
next
  fix s :: string
  assume n: "spacePrefixLen s \<noteq> 0"
  have "s \<noteq> []"
  proof
    assume "s = []"
    then have "spacePrefixLen s = 0" by (simp add: spacePrefixLen_def)
    with n show False by simp
  qed
  with n show "(drop (spacePrefixLen s) s, s) \<in> measure length" by simp
qed

function trimRightSpace :: "string \<Rightarrow> string" where
  "trimRightSpace s =
     (if spaceSuffixLen s = 0 then s
      else trimRightSpace (take (length s - spaceSuffixLen s) s))"
  by pat_completeness auto
termination
proof (relation "measure length")
  show "wf (measure (length :: string \<Rightarrow> nat))" by simp
next
  fix s :: string
  assume n: "spaceSuffixLen s \<noteq> 0"
  have "s \<noteq> []"
  proof
    assume "s = []"
    then have "spaceSuffixLen s = 0" by (simp add: spaceSuffixLen_def)
    with n show False by simp
  qed
  with n show "(take (length s - spaceSuffixLen s) s, s) \<in> measure length" by simp
qed

declare trimLeftSpace.simps [simp del] trimRightSpace.simps [simp del]

definition TrimSpace :: "string \<Rightarrow> string" where
  "TrimSpace s = trimRightSpace (trimLeftSpace s)"

subsection \<open>strings.ToLower, strings.ToUpper and the Unicode tables\<close>

text \<open>
  The Unicode tables of the Go library and the general number parser are not part of the
  repository. They are parameters of the model, collected in one record:
  \<^item> \<open>MapToLower\<close>, \<open>MapToUpper\<close>: \<open>strings.Map(unicode.ToLower, s)\<close> and
    \<open>strings.Map(unicode.ToUpper, s)\<close>, which \<open>strings.ToLower\<close> and \<open>strings.ToUpper\<close>
    call on a string that holds a byte outside ASCII;
  \<^item> \<open>Runes\<close>: the runes that \<open>for _, r := range s\<close> yields;
  \<^item> \<open>IsLetter\<close>, \<open>IsDigit\<close>: \<open>unicode.IsLetter\<close> and \<open>unicode.IsDigit\<close>;
  \<^item> \<open>ParseFloatOther\<close>: \<open>strconv.ParseFloat(s, 64)\<close> on a string that is not a plain
    decimal integer with an optional all-zero fraction (see \<open>ParseFloat\<close> below).
  Every theorem holds for all values of these parameters.
\<close>

datatype float64 = Finite real | PosInf | NegInf | NaN

record gostd =
  MapToLower :: "string \<Rightarrow> string"
  MapToUpper :: "string \<Rightarrow> string"
  Runes :: "string \<Rightarrow> nat list"
  IsLetter :: "nat \<Rightarrow> bool"
  IsDigit :: "nat \<Rightarrow> bool"
  ParseFloatOther :: "string \<Rightarrow> float64 option"

definition isASCII :: "char \<Rightarrow> bool" where
  "isASCII c \<longleftrightarrow> (of_char c :: nat) < 0x80"

text \<open>On ASCII text: \<open>A..Z\<close> go to \<open>a..z\<close> (and back); every other byte stays.\<close>

definition asciiLower :: "char \<Rightarrow> char" where
  "asciiLower c =
     (case map_of (zip ''ABCDEFGHIJKLMNOPQRSTUVWXYZ'' ''abcdefghijklmnopqrstuvwxyz'') c of
        Some d \<Rightarrow> d
      | None \<Rightarrow> c)"

definition asciiUpper :: "char \<Rightarrow> char" where
  "asciiUpper c =
     (case map_of (zip ''abcdefghijklmnopqrstuvwxyz'' ''ABCDEFGHIJKLMNOPQRSTUVWXYZ'') c of
        Some d \<Rightarrow> d
      | None \<Rightarrow> c)"

definition ToLower :: "gostd \<Rightarrow> string \<Rightarrow> string" where
  "ToLower L s = (if list_all isASCII s then map asciiLower s else MapToLower L s)"

definition ToUpper :: "gostd \<Rightarrow> string \<Rightarrow> string" where
  "ToUpper L s = (if list_all isASCII s then map asciiUpper s else MapToUpper L s)"

text \<open>\<open>strings.Contains(s, substr)\<close>: \<open>substr\<close> occurs in \<open>s\<close> as a run of bytes.\<close>

fun Contains :: "string \<Rightarrow> string \<Rightarrow> bool" where
  "Contains [] substr = (substr = [])"
| "Contains (c # cs) substr = (prefix substr (c # cs) \<or> Contains cs substr)"

section \<open>The job record and the job store\<close>

datatype CompareJobStatus =
    CompareJobStatusProcessing
  | CompareJobStatusAwaitingPayment
  | CompareJobStatusReady
  | CompareJobStatusFailed
  | CompareJobStatusCancelled

text \<open>A \<open>time.Time\<close> is a point on the clock, here a number of nanoseconds.\<close>

type_synonym time = int

text \<open>
  \<open>domain.CompareJob\<close>. \<open>AmountYuan\<close> is a \<open>float64\<close> in the code; the model keeps its value
  as a real number. The code only ever stores \<open>0\<close> or \<open>float64(feeFen) / 100.0\<close> there, and
  reads it back through \<open>math.Round(AmountYuan * 100)\<close>, which gives \<open>feeFen\<close> again in
  both readings.
\<close>

record CompareJob =
  ID :: string
  Status :: CompareJobStatus
  CreatedAt :: time
  File1Path :: string
  File2Path :: string
  File1OSSKey :: string
  File2OSSKey :: string
  File1Name :: string
  File2Name :: string
  ResultPath :: string
  ResultOSSKey :: string
  AmountYuan :: real
  CodeURL :: string
  Paid :: bool
  PaidAt :: "time option"
  CancelledAt :: "time option"
  Error :: string

definition hasResult :: "CompareJob \<Rightarrow> bool" where
  "hasResult job \<longleftrightarrow> TrimSpace (ResultOSSKey job) \<noteq> [] \<or> TrimSpace (ResultPath job) \<noteq> []"

subsection \<open>The in-memory store\<close>

type_synonym InMemoryCompareJobStore = "string \<rightharpoonup> CompareJob"

text \<open>\<open>Create\<close> returns the store and the error (\<open>None\<close> is Go's \<open>nil\<close>).\<close>

definition InMemory_Create ::
    "InMemoryCompareJobStore \<Rightarrow> CompareJob \<Rightarrow> InMemoryCompareJobStore \<times> string option" where
  "InMemory_Create s job = (s(ID job \<mapsto> job), None)"

definition InMemory_Get :: "InMemoryCompareJobStore \<Rightarrow> string \<Rightarrow> CompareJob option" where
  "InMemory_Get s ident = s ident"

definition InMemory_Update ::
    "InMemoryCompareJobStore \<Rightarrow> string \<Rightarrow> (CompareJob \<Rightarrow> CompareJob) \<Rightarrow>
     InMemoryCompareJobStore \<times> CompareJob option" where
  "InMemory_Update s ident fn =
     (case s ident of
        None \<Rightarrow> (s, None)
      | Some j \<Rightarrow> (s(ident \<mapsto> fn j), Some (fn j)))"

subsection \<open>The Redis store: Create\<close>

text \<open>
  The Redis database maps a key to the stored record (the JSON text of \<open>recordFromJob\<close>,
  which copies every field). \<open>SetNX\<close> stores the value only if the key is absent and
  answers whether it did; \<open>neterr\<close> is the transport error of the call, if any. \<open>Create\<close>
  returns \<open>SetNX(...).Err()\<close>, the transport error alone.
\<close>

type_synonym redisdb = "string \<rightharpoonup> CompareJob"

definition SetNX ::
    "string option \<Rightarrow> redisdb \<Rightarrow> string \<Rightarrow> CompareJob \<Rightarrow> redisdb \<times> bool \<times> string option" where
  "SetNX neterr db k v =
     (case neterr of
        Some e \<Rightarrow> (db, False, Some e)
      | None \<Rightarrow> (case db k of None \<Rightarrow> (db(k \<mapsto> v), True, None) | Some _ \<Rightarrow> (db, False, None)))"

definition redisKey :: "string \<Rightarrow> string" where
  "redisKey ident = ''gy:comparejob:'' @ TrimSpace ident"

definition Redis_Create ::
    "string option \<Rightarrow> redisdb \<Rightarrow> CompareJob \<Rightarrow> redisdb \<times> string option" where
  "Redis_Create neterr db job =
     (if TrimSpace (ID job) = [] then (db, Some ''job/id empty'')
      else (case SetNX neterr db (redisKey (ID job)) job of (db', stored, err) \<Rightarrow> (db', err)))"

subsection \<open>The Redis store: Get and Update\<close>

text \<open>
  A call of the Redis client can fail (a timeout, a lost connection); \<open>neterr\<close> is that
  error, if any. \<open>Get\<close> answers \<open>(job, ok, err)\<close>: here the job when \<open>ok\<close>, and the error.
  \<open>Update\<close> answers the same and leaves the new database. The text under a key is always
  the JSON of a record this store wrote, so decoding it does not fail. \<open>Update\<close> runs its
  transaction under \<open>WATCH\<close> and tries again when another writer got in between; with no
  such writer the first attempt commits, and giving up after eight attempts is one more way
  of returning an error. A call that returns an error is taken to have written nothing.
\<close>

definition Redis_Get ::
    "string option \<Rightarrow> redisdb \<Rightarrow> string \<Rightarrow> CompareJob option \<times> string option" where
  "Redis_Get neterr db ident =
     (let i = TrimSpace ident in
      if i = [] then (None, None)
      else (case neterr of
              Some e \<Rightarrow> (None, Some e)
            | None \<Rightarrow> (db (redisKey i), None)))"

definition Redis_Update ::
    "string option \<Rightarrow> redisdb \<Rightarrow> string \<Rightarrow> (CompareJob \<Rightarrow> CompareJob) \<Rightarrow>
     redisdb \<times> CompareJob option \<times> string option" where
  "Redis_Update neterr db ident fn =
     (let i = TrimSpace ident in
      if i = [] then (db, None, None)
      else (case neterr of
              Some e \<Rightarrow> (db, None, Some e)
            | None \<Rightarrow>
                (case db (redisKey i) of
                   None \<Rightarrow> (db, None, None)
                 | Some j \<Rightarrow> (db(redisKey i \<mapsto> fn j), Some (fn j), None))))"

subsection \<open>The store interface\<close>

text \<open>
  \<open>CompareJobStore\<close>, the interface the handlers and workers hold: \<open>Get\<close> and \<open>Update\<close> over
  a store state \<open>'st\<close>, each answering the job (when \<open>ok\<close>) and the error. The in-memory
  store never returns an error. The program itself only ever constructs the Redis store;
  each of its calls may meet its own transport error.
\<close>

record 'st CompareJobStore =
  store_Get :: "'st \<Rightarrow> string \<Rightarrow> CompareJob option \<times> string option"
  store_Update ::
    "'st \<Rightarrow> string \<Rightarrow> (CompareJob \<Rightarrow> CompareJob) \<Rightarrow> 'st \<times> CompareJob option \<times> string option"

definition InMemoryStore :: "InMemoryCompareJobStore CompareJobStore" where
  "InMemoryStore =
     \<lparr>store_Get = (\<lambda>s ident. (InMemory_Get s ident, None)),
      store_Update = (\<lambda>s ident fn. (fst (InMemory_Update s ident fn),
                                     snd (InMemory_Update s ident fn), None))\<rparr>"

definition RedisStore :: "string option \<Rightarrow> string option \<Rightarrow> redisdb CompareJobStore" where
  "RedisStore getErr updateErr =
     \<lparr>store_Get = Redis_Get getErr, store_Update = Redis_Update updateErr\<rparr>"

section \<open>The mutators handed to the store's Update\<close>

subsection \<open>Compute worker\<close>

definition compute_markProcessing :: "CompareJob \<Rightarrow> CompareJob" where
  "compute_markProcessing j =
     (if Status j = CompareJobStatusCancelled then j
      else j\<lparr>Status := CompareJobStatusProcessing, Error := []\<rparr>)"

definition compute_persistResult :: "string \<Rightarrow> CompareJob \<Rightarrow> CompareJob" where
  "compute_persistResult ossKey j =
     (if Status j = CompareJobStatusCancelled then j
      else j\<lparr>ResultOSSKey := ossKey, ResultPath := []\<rparr>)"

text \<open>The mutator of \<open>Worker.fail\<close>, the same in the compute and in the paygate worker.\<close>

definition compute_fail :: "string \<Rightarrow> CompareJob \<Rightarrow> CompareJob" where
  "compute_fail msg j = j\<lparr>Status := CompareJobStatusFailed, Error := msg\<rparr>"

subsection \<open>Paygate worker\<close>

definition paygate_fail :: "string \<Rightarrow> CompareJob \<Rightarrow> CompareJob" where
  "paygate_fail msg j = j\<lparr>Status := CompareJobStatusFailed, Error := msg\<rparr>"

definition paygate_releasePaid :: "string \<Rightarrow> CompareJob \<Rightarrow> CompareJob" where
  "paygate_releasePaid ossKey j =
     (if Status j = CompareJobStatusCancelled then j
      else j\<lparr>Status := CompareJobStatusReady, ResultOSSKey := ossKey, ResultPath := [],
             AmountYuan := 0, CodeURL := [], Error := []\<rparr>)"

definition paygate_releaseFree :: "time \<Rightarrow> string \<Rightarrow> CompareJob \<Rightarrow> CompareJob" where
  "paygate_releaseFree now ossKey j =
     (if Status j = CompareJobStatusCancelled then j
      else (let j1 = (if \<not> Paid j then j\<lparr>Paid := True, PaidAt := Some now\<rparr> else j)
            in j1\<lparr>Status := CompareJobStatusReady, ResultOSSKey := ossKey, ResultPath := [],
                   AmountYuan := 0, CodeURL := [], Error := []\<rparr>))"

definition paygate_awaitPayment :: "string \<Rightarrow> int \<Rightarrow> string \<Rightarrow> CompareJob \<Rightarrow> CompareJob" where
  "paygate_awaitPayment ossKey feeFen codeURL j =
     (if Status j = CompareJobStatusCancelled \<or> Paid j then j
      else j\<lparr>Status := CompareJobStatusAwaitingPayment, ResultOSSKey := ossKey,
             ResultPath := [], AmountYuan := real_of_int feeFen / 100, CodeURL := codeURL,
             Error := []\<rparr>)"

subsection \<open>Notify handler, cancel handler, intake\<close>

definition notify_mutator :: "time \<Rightarrow> CompareJob \<Rightarrow> CompareJob" where
  "notify_mutator now j =
     (if Paid j then j
      else (let j1 = j\<lparr>Paid := True, PaidAt := Some now\<rparr> in
        if hasResult j1 \<and>
           (Status j1 = CompareJobStatusAwaitingPayment \<or> Status j1 = CompareJobStatusProcessing)
        then j1\<lparr>Status := CompareJobStatusReady, AmountYuan := 0, CodeURL := []\<rparr>
        else if Status j1 = CompareJobStatusAwaitingPayment
        then j1\<lparr>Status := CompareJobStatusProcessing\<rparr>
        else j1))"

definition cancel_mutator :: "time \<Rightarrow> CompareJob \<Rightarrow> CompareJob" where
  "cancel_mutator now j =
     (if Paid j then j
      else j\<lparr>Status := CompareJobStatusCancelled, CancelledAt := Some now\<rparr>)"

text \<open>The text that \<open>handleCreateJob\<close> puts before the enqueue error, in UTF-8.\<close>

definition enqueueFailedPrefix :: string where
  "enqueueFailedPrefix =
     [CHR 0xE6, CHR 0x8A, CHR 0x95, CHR 0xE9, CHR 0x80, CHR 0x92, CHR 0xE4, CHR 0xBB, CHR 0xBB,
      CHR 0xE5, CHR 0x8A, CHR 0xA1, CHR 0xE5, CHR 0xA4, CHR 0xB1, CHR 0xE8, CHR 0xB4, CHR 0xA5,
      CHR 0x3A, CHR 0x20]"

definition intake_enqueueFailed :: "string \<Rightarrow> CompareJob \<Rightarrow> CompareJob" where
  "intake_enqueueFailed err j =
     j\<lparr>Status := CompareJobStatusFailed, Error := enqueueFailedPrefix @ err\<rparr>"

subsection \<open>All of them\<close>

text \<open>
  Every function literal passed to \<open>store.Update\<close> by the compute worker, the paygate
  worker, the notify handler, the cancel handler and the intake path, with the values it
  closes over.
\<close>

datatype mutator =
    ComputeMarkProcessing
  | ComputePersistResult string
  | ComputeFail string
  | PaygateReleasePaid string
  | PaygateReleaseFree time string
  | PaygateAwaitPayment string int string
  | PaygateFail string
  | NotifyPaid time
  | CancelJob time
  | IntakeEnqueueFailed string

fun applyMutator :: "mutator \<Rightarrow> CompareJob \<Rightarrow> CompareJob" where
  "applyMutator ComputeMarkProcessing = compute_markProcessing"
| "applyMutator (ComputePersistResult k) = compute_persistResult k"
| "applyMutator (ComputeFail msg) = compute_fail msg"
| "applyMutator (PaygateReleasePaid k) = paygate_releasePaid k"
| "applyMutator (PaygateReleaseFree now k) = paygate_releaseFree now k"
| "applyMutator (PaygateAwaitPayment k fee url) = paygate_awaitPayment k fee url"
| "applyMutator (PaygateFail msg) = paygate_fail msg"
| "applyMutator (NotifyPaid now) = notify_mutator now"
| "applyMutator (CancelJob now) = cancel_mutator now"
| "applyMutator (IntakeEnqueueFailed err) = intake_enqueueFailed err"

section \<open>The payment notification handler\<close>

text \<open>
  \<open>notifyHandler.handle\<close> from the point where the notification is verified, decrypted
  and parsed into a \<open>wechatpayTransaction\<close> (verification and decryption are the payment
  provider's primitives). It runs against the store \<open>h.store\<close> and returns the store's
  state and the reply: HTTP status, \<open>code\<close> and \<open>message\<close>. The amount is checked only
  when \<open>Get\<close> answers \<open>ok\<close>; its error is dropped, and so is the error of \<open>Update\<close>.
\<close>

record wechatpayTransaction =
  OutTradeNo :: string
  TradeState :: string
  SuccessTime :: string
  AmountTotal :: int

datatype reply = Reply nat string string

text \<open>\<open>math.Round\<close>: to the nearest integer, halves away from zero.\<close>

definition mathRound :: "real \<Rightarrow> int" where
  "mathRound x = (if x < 0 then \<lceil>x - 1 / 2\<rceil> else \<lfloor>x + 1 / 2\<rfloor>)"

definition expectedFen :: "CompareJob \<Rightarrow> int" where
  "expectedFen job =
     (let e = mathRound (AmountYuan job * 100) in if e \<le> 0 then 1 else e)"

definition notify_handle_on ::
    "gostd \<Rightarrow> time \<Rightarrow> 'st CompareJobStore \<Rightarrow> 'st \<Rightarrow> wechatpayTransaction \<Rightarrow> 'st \<times> reply" where
  "notify_handle_on L now store s tx =
     (let jobID = TrimSpace (OutTradeNo tx) in
      if jobID = [] then (s, Reply 400 ''FAIL'' ''missing out_trade_no'')
      else if ToUpper L (TradeState tx) \<noteq> ''SUCCESS'' then (s, Reply 200 ''SUCCESS'' ''OK'')
      else
        (case fst (store_Get store s jobID) of
           Some job \<Rightarrow>
             if AmountTotal tx \<noteq> expectedFen job
             then (s, Reply 400 ''FAIL'' ''amount mismatch'')
             else (fst (store_Update store s jobID (notify_mutator now)),
                   Reply 200 ''SUCCESS'' ''OK'')
         | None \<Rightarrow>
             (fst (store_Update store s jobID (notify_mutator now)),
              Reply 200 ''SUCCESS'' ''OK'')))"

text \<open>The handler over the in-memory store.\<close>

definition notify_handle ::
    "gostd \<Rightarrow> time \<Rightarrow> InMemoryCompareJobStore \<Rightarrow> wechatpayTransaction \<Rightarrow>
     InMemoryCompareJobStore \<times> reply" where
  "notify_handle L now s tx = notify_handle_on L now InMemoryStore s tx"

section \<open>The stream consumer\<close>

text \<open>
  Errors form a chain through \<open>Unwrap\<close>: a plain error, \<open>TerminalError{Err}\<close> (whose \<open>Err\<close>
  may be nil) and an error wrapping another (\<open>fmt.Errorf\<close> with \<open>%w\<close>). \<open>IsTerminal\<close> is
  \<open>errors.As(err, &TerminalError{})\<close>: some error of the chain is a \<open>TerminalError\<close>.
\<close>

datatype goerror =
    ErrorString string
  | TerminalError "goerror option"
  | WrapError string goerror

fun isTerminalChain :: "goerror \<Rightarrow> bool" where
  "isTerminalChain (ErrorString _) = False"
| "isTerminalChain (TerminalError _) = True"
| "isTerminalChain (WrapError _ e) = isTerminalChain e"

text \<open>
  \<open>Error()\<close>, the text of an error: a \<open>TerminalError\<close> gives the text of its \<open>Err\<close> (the word
  \<open>terminal\<close> when that is nil), and \<open>fmt.Errorf("p%w", e)\<close>, modelled with the text \<open>p\<close>
  before the verb, gives \<open>p\<close> followed by the text of \<open>e\<close>.
\<close>

fun errorText :: "goerror \<Rightarrow> string" where
  "errorText (ErrorString s) = s"
| "errorText (TerminalError None) = ''terminal''"
| "errorText (TerminalError (Some e)) = errorText e"
| "errorText (WrapError p e) = p @ errorText e"

definition Terminal :: "goerror option \<Rightarrow> goerror option" where
  "Terminal err = Some (TerminalError err)"

definition IsTerminal :: "goerror option \<Rightarrow> bool" where
  "IsTerminal err = (case err of None \<Rightarrow> False | Some e \<Rightarrow> isTerminalChain e)"

text \<open>What a call of the handler does: it returns an error value (or nil), or it panics.\<close>

datatype outcome = Returns "goerror option" | Panics string

type_synonym Handler = "string \<Rightarrow> outcome"

record XMessage =
  MsgID :: string
  Values :: "string \<rightharpoonup> string"

text \<open>
  The consumer group's state as the consumer sees it: the pending entries list and the
  \<open>XACK\<close> commands sent so far. \<open>XACK\<close> removes the entry from the list.
\<close>

record groupState =
  pending :: "string set"
  xacks :: "string list"

definition ack :: "groupState \<Rightarrow> string \<Rightarrow> groupState" where
  "ack st ident =
     (if TrimSpace ident = [] then st
      else st\<lparr>pending := pending st - {ident}, xacks := xacks st @ [ident]\<rparr>)"

definition handleOne :: "Handler \<Rightarrow> XMessage \<Rightarrow> groupState \<Rightarrow> groupState" where
  "handleOne handler msg st =
     (case Values msg ''jobId'' of
        None \<Rightarrow> ack st (MsgID msg)
      | Some jobID \<Rightarrow>
          (let jid = TrimSpace jobID in
           if jid = [] then ack st (MsgID msg)
           else
             (let err = (case handler jid of
                           Panics r \<Rightarrow> Terminal (Some (ErrorString (''panic: '' @ r)))
                         | Returns e \<Rightarrow> e)
              in if err = None \<or> IsTerminal err then ack st (MsgID msg) else st)))"

section \<open>Scalar normalization (normalize.go)\<close>

subsection \<open>The scanners\<close>

text \<open>A byte between \<open>'0'\<close> and \<open>'9'\<close>.\<close>

definition isDigitByte :: "char \<Rightarrow> bool" where
  "isDigitByte c \<longleftrightarrow> (48 :: nat) \<le> of_char c \<and> (of_char c :: nat) \<le> 57"

text \<open>
  \<open>looksLikeIntegerFloatString\<close> walks the string with an index: an optional sign at
  \<open>i0\<close>, then \<open>digits\<close> digit bytes up to \<open>i1\<close>, a dot at \<open>i1\<close>, then \<open>zeros\<close> bytes \<open>'0'\<close>
  up to \<open>i3\<close>, which must be the end of the string. The two \<open>for\<close> loops are the two
  \<open>takeWhile\<close>.
\<close>

definition looksLikeIntegerFloatString :: "string \<Rightarrow> bool" where
  "looksLikeIntegerFloatString s =
     (if s = [] then False
      else
        (let i0 = (if hd s = CHR ''+'' \<or> hd s = CHR ''-'' then 1 else 0 :: nat) in
         if i0 = 1 \<and> i0 \<ge> length s then False
         else
           (let digits = length (takeWhile isDigitByte (drop i0 s)); i1 = i0 + digits in
            if digits = 0 then False
            else if i1 = length s then False
            else if s ! i1 \<noteq> CHR ''.'' then False
            else
              (let i2 = i1 + 1;
                   zeros = length (takeWhile (\<lambda>c. c = CHR ''0'') (drop i2 s));
                   i3 = i2 + zeros
               in zeros > 0 \<and> i3 = length s))))"

definition isIntegerLikeString :: "string \<Rightarrow> bool" where
  "isIntegerLikeString s =
     (if s = [] then False
      else
        (let s1 = (if hd s = CHR ''-'' \<or> hd s = CHR ''+'' then tl s else s) in
         if s1 = [] then False else list_all isDigitByte s1))"

subsection \<open>strconv.ParseFloat, float64 and strconv.FormatInt\<close>

text \<open>
  \<open>strconv.ParseFloat(s, 64)\<close> returns the \<open>float64\<close> nearest to the decimal number \<open>s\<close>
  (ties to even), or an infinity and a range error when that is beyond the largest
  \<open>float64\<close>. On a string \<open>[+-]digits\<close> or \<open>[+-]digits.000\<close> the decimal number is the integer
  \<open>integerPart s\<close>, and the model computes the result: \<open>roundToFloat64 n\<close> is \<open>n\<close> rounded to
  53 significant bits, and the result is an error (\<open>None\<close>) when that reaches \<open>2 ^ 1024\<close>.
  On every other string the result is the parameter \<open>ParseFloatOther\<close>. A \<open>float64\<close> is its
  real value, an infinity or NaN; the sign of zero is not kept (it changes no comparison
  and no conversion below).
\<close>

definition decimalValue :: "string \<Rightarrow> nat" where
  "decimalValue ds = fold (\<lambda>c n. 10 * n + (of_char c - 48)) ds 0"

definition integerPart :: "string \<Rightarrow> int" where
  "integerPart s =
     (let body = (if s \<noteq> [] \<and> (hd s = CHR ''+'' \<or> hd s = CHR ''-'') then tl s else s);
          n = int (decimalValue (takeWhile isDigitByte body))
      in if s \<noteq> [] \<and> hd s = CHR ''-'' then - n else n)"

definition roundToFloat64 :: "int \<Rightarrow> int" where
  "roundToFloat64 n =
     (let a = \<bar>n\<bar> in
      if a < 2 ^ 53 then n
      else
        (let e = nat (bitlen a) - 53;
             q = a div 2 ^ e;
             r = a mod 2 ^ e;
             q1 = (if 2 * r > 2 ^ e \<or> (2 * r = 2 ^ e \<and> odd q) then q + 1 else q)
         in sgn n * (q1 * 2 ^ e)))"

definition ParseFloat :: "gostd \<Rightarrow> string \<Rightarrow> float64 option" where
  "ParseFloat L s =
     (if isIntegerLikeString s \<or> looksLikeIntegerFloatString s
      then (let v = roundToFloat64 (integerPart s)
            in if \<bar>v\<bar> \<ge> 2 ^ 1024 then None else Some (Finite (real_of_int v)))
      else ParseFloatOther L s)"

text \<open>
  The comparisons \<open>f > c\<close>, \<open>f < c\<close> and \<open>f == g\<close> of IEEE 754 (every comparison with NaN
  is false), the conversion \<open>int64(f)\<close>, which truncates towards zero (Go leaves the result
  for an infinity or NaN to the implementation; the code compares it with \<open>f\<close> itself
  afterwards, and NaN is unequal to everything), and \<open>float64(i)\<close>.
\<close>

fun f64_gt :: "float64 \<Rightarrow> real \<Rightarrow> bool" where
  "f64_gt (Finite x) c = (x > c)"
| "f64_gt PosInf c = True"
| "f64_gt NegInf c = False"
| "f64_gt NaN c = False"

fun f64_lt :: "float64 \<Rightarrow> real \<Rightarrow> bool" where
  "f64_lt (Finite x) c = (x < c)"
| "f64_lt PosInf c = False"
| "f64_lt NegInf c = True"
| "f64_lt NaN c = False"

fun f64_eq :: "float64 \<Rightarrow> float64 \<Rightarrow> bool" where
  "f64_eq (Finite x) (Finite y) = (x = y)"
| "f64_eq PosInf PosInf = True"
| "f64_eq NegInf NegInf = True"
| "f64_eq _ _ = False"

fun toInt64 :: "float64 \<Rightarrow> int" where
  "toInt64 (Finite x) = (if x < 0 then \<lceil>x\<rceil> else \<lfloor>x\<rfloor>)"
| "toInt64 _ = 0"

definition fromInt64 :: "int \<Rightarrow> float64" where
  "fromInt64 i = Finite (real_of_int (roundToFloat64 i))"

text \<open>\<open>strconv.FormatInt(i, 10)\<close>: the decimal digits, with a minus sign for a negative \<open>i\<close>.\<close>

function digitsOf :: "nat \<Rightarrow> string" where
  "digitsOf n =
     (if n < 10 then [''0123456789'' ! n]
      else digitsOf (n div 10) @ [''0123456789'' ! (n mod 10)])"
  by pat_completeness auto
termination
  by (relation "measure id") auto

declare digitsOf.simps [simp del]

definition FormatInt :: "int \<Rightarrow> string" where
  "FormatInt i = (if i < 0 then CHR ''-'' # digitsOf (nat (- i)) else digitsOf (nat i))"

subsection \<open>normalizeScalarForCompare\<close>

text \<open>
  The value \<open>int64(f)\<close> stays an \<open>int\<close>: it is only computed for \<open>|f| \<le> 9e15\<close>, far inside
  the range of \<open>int64\<close>.
\<close>

definition normalizeScalarForCompare :: "gostd \<Rightarrow> string \<Rightarrow> string" where
  "normalizeScalarForCompare L v =
     (let s = TrimSpace v in
      if s = [] then []
      else
        (let ls = ToLower L s in
         if ls = ''nan'' \<or> ls = ''nat'' \<or> ls = ''none'' then []
         else if looksLikeIntegerFloatString s then
           (case ParseFloat L s of
              Some f \<Rightarrow>
                if f64_gt f 9000000000000000 \<or> f64_lt f (- 9000000000000000) then s
                else (let i = toInt64 f in
                      if f64_eq (fromInt64 i) f then FormatInt i else s)
            | None \<Rightarrow> s)
         else s))"

text \<open>
  The pattern of the specification, \<open>^[+-]?\d+(\.0+)$\<close>, in its own words: the string is an
  optional sign \<open>sg\<close>, one or more digits \<open>ds\<close>, a dot and one or more zeros \<open>zs\<close>. Its
  value is the number that \<open>ds\<close> writes, with the sign.
\<close>

definition matchesIntFloat :: "string \<Rightarrow> string \<Rightarrow> string \<Rightarrow> string \<Rightarrow> bool" where
  "matchesIntFloat s sg ds zs \<longleftrightarrow>
     s = sg @ ds @ CHR ''.'' # zs \<and> (sg = [] \<or> sg = ''+'' \<or> sg = ''-'') \<and>
     ds \<noteq> [] \<and> list_all isDigitByte ds \<and> zs \<noteq> [] \<and> list_all (\<lambda>c. c = CHR ''0'') zs"

definition signedValue :: "string \<Rightarrow> string \<Rightarrow> int" where
  "signedValue sg ds = (if sg = ''-'' then - int (decimalValue ds) else int (decimalValue ds))"

text \<open>
  Two notions for the proofs: the length of the sign, and what the scanner asks of the
  bytes after the sign.
\<close>

definition signLen :: "string \<Rightarrow> nat" where
  "signLen s = (if s \<noteq> [] \<and> (hd s = CHR ''+'' \<or> hd s = CHR ''-'') then 1 else 0)"

definition bodyOK :: "string \<Rightarrow> bool" where
  "bodyOK b \<longleftrightarrow>
     (let ds = takeWhile isDigitByte b; rest = dropWhile isDigitByte b
      in ds \<noteq> [] \<and> rest \<noteq> [] \<and> hd rest = CHR ''.'' \<and> tl rest \<noteq> [] \<and>
         list_all (\<lambda>c. c = CHR ''0'') (tl rest))"

section \<open>Key column inference (GuessPrimaryKeyColumn)\<close>

record Table =
  Headers :: "string list"
  Rows :: "string list list"

text \<open>
  The keywords, in UTF-8: \<open>id\<close>, then the Chinese words for number, code, asset number,
  asset code, serial number and asset no., then \<open>code\<close>, \<open>no\<close> and the word for sequence
  number.
\<close>

definition primaryKeyCandidates :: "string list" where
  "primaryKeyCandidates =
     [''id'',
      [CHR 0xE7, CHR 0xBC, CHR 0x96, CHR 0xE5, CHR 0x8F, CHR 0xB7],
      [CHR 0xE7, CHR 0xBC, CHR 0x96, CHR 0xE7, CHR 0xA0, CHR 0x81],
      [CHR 0xE8, CHR 0xB5, CHR 0x84, CHR 0xE4, CHR 0xBA, CHR 0xA7, CHR 0xE7, CHR 0xBC, CHR 0x96,
       CHR 0xE5, CHR 0x8F, CHR 0xB7],
      [CHR 0xE8, CHR 0xB5, CHR 0x84, CHR 0xE4, CHR 0xBA, CHR 0xA7, CHR 0xE7, CHR 0xBC, CHR 0x96,
       CHR 0xE7, CHR 0xA0, CHR 0x81],
      [CHR 0xE5, CHR 0xBA, CHR 0x8F, CHR 0xE5, CHR 0x8F, CHR 0xB7],
      [CHR 0xE8, CHR 0xB5, CHR 0x84, CHR 0xE4, CHR 0xBA, CHR 0xA7, CHR 0xE5, CHR 0x8F, CHR 0xB7],
      ''code'',
      ''no'',
      [CHR 0xE5, CHR 0xBA, CHR 0x8F, CHR 0xE5, CHR 0x88, CHR 0x97, CHR 0xE5, CHR 0x8F, CHR 0xB7]]"

definition isAlnumUnicode :: "gostd \<Rightarrow> string \<Rightarrow> bool" where
  "isAlnumUnicode L s =
     (if s = [] then False else list_all (\<lambda>r. IsLetter L r \<or> IsDigit L r) (Runes L s))"

definition isFiniteIntegerFloatString :: "gostd \<Rightarrow> string \<Rightarrow> bool" where
  "isFiniteIntegerFloatString L s =
     (case ParseFloat L s of
        None \<Rightarrow> False
      | Some f \<Rightarrow>
          if f64_gt f 9000000000000000 \<or> f64_lt f (- 9000000000000000) then False
          else f64_eq (fromInt64 (toInt64 f)) f)"

text \<open>
  The first inner loop collects the trimmed values of column \<open>colIdx\<close> from the sampled
  rows and stops with \<open>hasNull\<close> (here \<open>None\<close>) at a row that is too short or a value that
  is blank. The second loop looks for a value seen before.
\<close>

fun gatherValues :: "string list list \<Rightarrow> nat \<Rightarrow> string list option" where
  "gatherValues [] colIdx = Some []"
| "gatherValues (row # rows) colIdx =
     (if colIdx \<ge> length row then None
      else (let v = TrimSpace (row ! colIdx) in
            if v = [] then None
            else (case gatherValues rows colIdx of
                    None \<Rightarrow> None
                  | Some vs \<Rightarrow> Some (v # vs))))"

fun hasDuplicate :: "string list \<Rightarrow> string set \<Rightarrow> bool" where
  "hasDuplicate [] uniq = False"
| "hasDuplicate (v # vs) uniq = (if v \<in> uniq then True else hasDuplicate vs (insert v uniq))"

text \<open>The keyword loop adds 10 for every keyword the lower-cased header contains.\<close>

definition keywordScore :: "gostd \<Rightarrow> string \<Rightarrow> int" where
  "keywordScore L colName =
     (let lcName = ToLower L colName in
      fold (\<lambda>kw score. if Contains lcName (ToLower L kw) then score + 10 else score)
        primaryKeyCandidates 0)"

definition pkish :: "gostd \<Rightarrow> string \<Rightarrow> bool" where
  "pkish L v \<longleftrightarrow> isIntegerLikeString v \<or> isFiniteIntegerFloatString L v \<or> isAlnumUnicode L v"

text \<open>
  One iteration of the loop over the columns, on the state \<open>(bestCol, bestScore)\<close>;
  \<open>checkRows\<close> is positive here.
\<close>

definition columnStep ::
    "gostd \<Rightarrow> Table \<Rightarrow> int \<Rightarrow> nat \<times> string \<Rightarrow> string \<times> int \<Rightarrow> string \<times> int" where
  "columnStep L tbl checkRows col best =
     (case col of (colIdx, colName) \<Rightarrow>
      (let n = (if int (length (Rows tbl)) < checkRows then length (Rows tbl) else nat checkRows) in
       if n = 0 then best
       else
         (case gatherValues (take n (Rows tbl)) colIdx of
            None \<Rightarrow> best
          | Some vals \<Rightarrow>
              if hasDuplicate vals {} then best
              else
                (let score = keywordScore L colName;
                     score1 = (if list_all (pkish L) vals then score + 5 else score)
                 in if score1 > snd best then (colName, score1) else best))))"

text \<open>The result \<open>("", false)\<close> is \<open>None\<close>; the table pointer is not nil.\<close>

definition GuessPrimaryKeyColumn :: "gostd \<Rightarrow> Table \<Rightarrow> int \<Rightarrow> string option" where
  "GuessPrimaryKeyColumn L tbl checkRows =
     (if Headers tbl = [] then None
      else
        (let checkRows1 = (if checkRows \<le> 0 then 5 else checkRows);
             best = fold (columnStep L tbl checkRows1)
                      (zip [0..<length (Headers tbl)] (Headers tbl)) ([], - 1)
         in if fst best = [] then None else Some (fst best)))"

subsection \<open>When the inference fails\<close>

text \<open>
  \<open>loadKeyedSheetXLSX\<close> with \<open>allowGuess\<close> hands the header row and the rows it peeked, as a
  table, to the inference and returns an error when that finds no key (the text says that
  the key column cannot be guessed). \<open>GenerateCompareExportXLSX\<close> calls it for file 1 with
  \<open>checkRows = 5\<close> and wraps the error (the text before \<open>%w\<close> says that reading file 1
  failed). The compute worker's handler answers an error of the export with
  \<open>streamq.Terminal(w.fail(jobID, err))\<close>: \<open>Worker.fail\<close> (the job id is not blank there)
  hands the mutator that stores status failed and the error's text to the store's \<open>Update\<close>
  and returns the error, and the handler returns it as a terminal error. In
  \<open>loadKeyedSheet_guess\<close> and \<open>export_keyOfFile1\<close> the value \<open>Inr k\<close> is the guessed key, with
  which the load of the file goes on.
\<close>

definition cannotGuessKey :: goerror where
  "cannotGuessKey = ErrorString
     [CHR 0xE6, CHR 0x97, CHR 0xA0, CHR 0xE6, CHR 0xB3, CHR 0x95, CHR 0xE7, CHR 0x8C, CHR 0x9C,
      CHR 0xE6, CHR 0xB5, CHR 0x8B, CHR 0xE4, CHR 0xB8, CHR 0xBB, CHR 0xE9, CHR 0x94, CHR 0xAE,
      CHR 0xE5, CHR 0x88, CHR 0x97, CHR 0xEF, CHR 0xBC, CHR 0x8C, CHR 0xE8, CHR 0xAF, CHR 0xB7,
      CHR 0xE7, CHR 0xA1, CHR 0xAE, CHR 0xE4, CHR 0xBF, CHR 0x9D, CHR 0xE5, CHR 0x8C, CHR 0x85,
      CHR 0xE5, CHR 0x90, CHR 0xAB, CHR 0xE6, CHR 0x98, CHR 0x8E, CHR 0xE6, CHR 0x98, CHR 0xBE,
      CHR 0xE7, CHR 0x9A, CHR 0x84, CHR 0xE7, CHR 0xBC, CHR 0x96, CHR 0xE5, CHR 0x8F, CHR 0xB7,
      CHR 0xE5, CHR 0x88, CHR 0x97]"

definition loadKeyedSheet_guess :: "gostd \<Rightarrow> Table \<Rightarrow> int \<Rightarrow> goerror + string" where
  "loadKeyedSheet_guess L tbl checkRows =
     (let checkRows1 = (if checkRows \<le> 0 then 5 else checkRows) in
      case GuessPrimaryKeyColumn L tbl checkRows1 of
        None \<Rightarrow> Inl cannotGuessKey
      | Some k \<Rightarrow> Inr k)"

definition readFile1Failed :: "goerror \<Rightarrow> goerror" where
  "readFile1Failed err = WrapError
     [CHR 0xE8, CHR 0xAF, CHR 0xBB, CHR 0xE5, CHR 0x8F, CHR 0x96, CHR 0xE6, CHR 0x96, CHR 0x87,
      CHR 0xE4, CHR 0xBB, CHR 0xB6, CHR 0x31, CHR 0xE5, CHR 0xA4, CHR 0xB1, CHR 0xE8, CHR 0xB4,
      CHR 0xA5, CHR 0x3A, CHR 0x20] err"

definition export_keyOfFile1 :: "gostd \<Rightarrow> Table \<Rightarrow> goerror + string" where
  "export_keyOfFile1 L tbl =
     (case loadKeyedSheet_guess L tbl 5 of
        Inl err \<Rightarrow> Inl (readFile1Failed err)
      | Inr k \<Rightarrow> Inr k)"

definition compute_exportFailed :: "goerror \<Rightarrow> mutator \<times> outcome" where
  "compute_exportFailed err = (ComputeFail (errorText err), Returns (Terminal (Some err)))"

subsection \<open>The vocabulary of the claim\<close>

text \<open>
  The sampled rows (the first \<open>checkRows\<close> rows, 5 when \<open>checkRows\<close> is not positive), the
  sampled values of a column, when a column qualifies (there is a sampled row, no sampled
  value is missing or blank, no two are equal), the keywords a header contains, and the
  score the code gives a column. \<open>claimedScore\<close> is the score in the words of the claim:
  10 if the header contains any keyword at all. \<open>bestAfter k\<close> is the loop's state
  after \<open>k\<close> columns.
\<close>

definition sampleRows :: "Table \<Rightarrow> int \<Rightarrow> string list list" where
  "sampleRows tbl checkRows =
     take (nat (if checkRows \<le> 0 then 5 else checkRows)) (Rows tbl)"

definition columnValues :: "Table \<Rightarrow> int \<Rightarrow> nat \<Rightarrow> string list" where
  "columnValues tbl checkRows i = map (\<lambda>row. TrimSpace (row ! i)) (sampleRows tbl checkRows)"

definition qualifies :: "Table \<Rightarrow> int \<Rightarrow> nat \<Rightarrow> bool" where
  "qualifies tbl checkRows i \<longleftrightarrow>
     sampleRows tbl checkRows \<noteq> [] \<and>
     list_all (\<lambda>row. i < length row \<and> TrimSpace (row ! i) \<noteq> []) (sampleRows tbl checkRows) \<and>
     distinct (columnValues tbl checkRows i)"

definition keywordHits :: "gostd \<Rightarrow> string \<Rightarrow> string list" where
  "keywordHits L colName =
     filter (\<lambda>kw. Contains (ToLower L colName) (ToLower L kw)) primaryKeyCandidates"

definition columnScore :: "gostd \<Rightarrow> Table \<Rightarrow> int \<Rightarrow> nat \<Rightarrow> int" where
  "columnScore L tbl checkRows i =
     10 * int (length (keywordHits L (Headers tbl ! i))) +
     (if list_all (pkish L) (columnValues tbl checkRows i) then 5 else 0)"

definition claimedScore :: "gostd \<Rightarrow> Table \<Rightarrow> int \<Rightarrow> nat \<Rightarrow> int" where
  "claimedScore L tbl checkRows i =
     (if keywordHits L (Headers tbl ! i) \<noteq> [] then 10 else 0) +
     (if list_all (pkish L) (columnValues tbl checkRows i) then 5 else 0)"

definition bestAfter :: "gostd \<Rightarrow> Table \<Rightarrow> int \<Rightarrow> nat \<Rightarrow> string \<times> int" where
  "bestAfter L tbl checkRows k =
     fold (columnStep L tbl (if checkRows \<le> 0 then 5 else checkRows))
       (map (\<lambda>i. (i, Headers tbl ! i)) [0..<k]) ([], - 1)"

section \<open>The diff engine: key partition and the three sheets\<close>

subsection \<open>The artifacts (compareArtifactsFromMaps)\<close>









subsection \<open>The Added and the Removed sheet (writeSimpleKeyedSheetStream)\<close>






subsection \<open>The Changed sheet (writeDiffSideBySideStream)\<close>























subsection \<open>The export (GenerateCompareExportXLSX)\<close>


subsection \<open>The vocabulary of the claim on the sheets\<close>









section \<open>Example values\<close>

text \<open>
  An instance of the library parameters for evaluating the code on examples. It treats
  every string as ASCII text: it agrees with the Go library on ASCII letters and digits, and
  on text beyond ASCII that has no upper or lower case (the Chinese keywords). Its
  \<open>ParseFloatOther\<close> rejects everything, which is right for text that is no number.
\<close>

definition asciiStd :: gostd where
  "asciiStd =
     \<lparr>MapToLower = map asciiLower, MapToUpper = map asciiUpper,
      Runes = map of_char,
      IsLetter = (\<lambda>r. (65 \<le> r \<and> r \<le> 90) \<or> (97 \<le> r \<and> r \<le> 122)),
      IsDigit = (\<lambda>r. 48 \<le> r \<and> r \<le> 57),
      ParseFloatOther = (\<lambda>s. None)\<rparr>"

text \<open>A job as the intake path creates it, and the same job later in its life.\<close>

definition exampleJob :: CompareJob where
  "exampleJob =
     \<lparr>ID = ''job_1'', Status = CompareJobStatusProcessing, CreatedAt = 0,
      File1Path = [], File2Path = [], File1OSSKey = ''in/job_1/file1_a.xlsx'',
      File2OSSKey = ''in/job_1/file2_b.xlsx'', File1Name = ''a.xlsx'', File2Name = ''b.xlsx'',
      ResultPath = [], ResultOSSKey = [], AmountYuan = 0, CodeURL = [], Paid = False,
      PaidAt = None, CancelledAt = None, Error = []\<rparr>"

definition paidJob :: CompareJob where
  "paidJob = exampleJob\<lparr>Status := CompareJobStatusReady, ResultOSSKey := ''out/job_1/compare.xlsx'',
                        Paid := True, PaidAt := Some 20\<rparr>"

definition cancelledJob :: CompareJob where
  "cancelledJob = exampleJob\<lparr>Status := CompareJobStatusCancelled, CancelledAt := Some 10\<rparr>"

definition awaitingJob :: CompareJob where
  "awaitingJob = exampleJob\<lparr>Status := CompareJobStatusAwaitingPayment,
     ResultOSSKey := ''out/job_1/compare.xlsx'', AmountYuan := 5 / 100,
     CodeURL := ''weixin://wxpay/bizpayurl?pr=abc''\<rparr>"

definition exampleSuccess :: "int \<Rightarrow> wechatpayTransaction" where
  "exampleSuccess amt =
     \<lparr>OutTradeNo = ''job_1'', TradeState = ''SUCCESS'', SuccessTime = [], AmountTotal = amt\<rparr>"

text \<open>A Redis database that holds the job awaiting payment.\<close>

definition exampleDb :: redisdb where
  "exampleDb = [redisKey ''job_1'' \<mapsto> awaitingJob]"

definition exampleMessage :: XMessage where
  "exampleMessage = \<lparr>MsgID = ''1700000000000-0'', Values = [''jobId'' \<mapsto> ''job_1'']\<rparr>"

text \<open>
  A sheet whose first header is the word for serial number and whose second is the one for
  asset number.
\<close>

definition exampleTable :: Table where
  "exampleTable =
     \<lparr>Headers = [[CHR 0xE5, CHR 0xBA, CHR 0x8F, CHR 0xE5, CHR 0x8F, CHR 0xB7],
                  [CHR 0xE8, CHR 0xB5, CHR 0x84, CHR 0xE4, CHR 0xBA, CHR 0xA7, CHR 0xE7, CHR 0xBC,
                   CHR 0x96, CHR 0xE5, CHR 0x8F, CHR 0xB7]],
      Rows = [[''1'', ''A001''], [''2'', ''A002'']]\<rparr>"





chapter \<open>Properties\<close>

section \<open>Evaluating the string helpers\<close>

lemmas trim_eval =
  TrimSpace_def trimLeftSpace.simps trimRightSpace.simps spacePrefixLen_def spaceSuffixLen_def
  isASCIISpace_def

lemma TrimSpace_Nil: "TrimSpace [] = []"
  by (simp add: trim_eval)

lemma TrimSpace_noop:
  "spacePrefixLen s = 0 \<Longrightarrow> spaceSuffixLen s = 0 \<Longrightarrow> TrimSpace s = s"
  by (simp add: TrimSpace_def trimLeftSpace.simps trimRightSpace.simps)

lemma TrimSpace_job_1: "TrimSpace ''job_1'' = ''job_1''"
  by (simp add: trim_eval)

lemma TrimSpace_out_trade_no: "TrimSpace (OutTradeNo (exampleSuccess a)) = ''job_1''"
  by (simp add: exampleSuccess_def trim_eval)

lemma ToUpper_trade_state: "ToUpper L (TradeState (exampleSuccess a)) = ''SUCCESS''"
  by (simp add: exampleSuccess_def ToUpper_def isASCII_def asciiUpper_def)

section \<open>The acknowledgment rule of the stream consumer\<close>

text \<open>
  C4. A message that carries a non-blank \<open>jobId\<close> is dispatched to the handler. The consumer
  sends \<open>XACK\<close> for it, which removes it from the pending entries list, exactly when the
  handler returns nil, returns an error whose chain holds a \<open>TerminalError\<close>, or panics (the
  panic is turned into a terminal error). When the handler returns any other error the
  consumer sends nothing and the group's state is unchanged: the message stays pending.
\<close>

theorem handleOne_ack_rule:
  assumes "Values msg ''jobId'' = Some v" and "TrimSpace v \<noteq> []"
    and "TrimSpace (MsgID msg) \<noteq> []"
  shows "handleOne h msg st =
     (if h (TrimSpace v) = Returns None
         \<or> (\<exists>e. h (TrimSpace v) = Returns (Some e) \<and> isTerminalChain e)
         \<or> (\<exists>r. h (TrimSpace v) = Panics r)
      then st\<lparr>pending := pending st - {MsgID msg}, xacks := xacks st @ [MsgID msg]\<rparr>
      else st)"
  using assms
  by (cases "h (TrimSpace v)")
     (auto simp: handleOne_def ack_def Let_def IsTerminal_def Terminal_def split: option.splits)

theorem handleOne_ack_rule_witness:
  "handleOne (\<lambda>j. Returns (Some (ErrorString ''redis timeout''))) exampleMessage
      \<lparr>pending = {''1700000000000-0''}, xacks = []\<rparr>
     = \<lparr>pending = {''1700000000000-0''}, xacks = []\<rparr>
   \<and> handleOne (\<lambda>j. Returns (Terminal None)) exampleMessage
      \<lparr>pending = {''1700000000000-0''}, xacks = []\<rparr>
     = \<lparr>pending = {}, xacks = [''1700000000000-0'']\<rparr>
   \<and> handleOne (\<lambda>j. Panics ''nil map'') exampleMessage
      \<lparr>pending = {''1700000000000-0''}, xacks = []\<rparr>
     = \<lparr>pending = {}, xacks = [''1700000000000-0'']\<rparr>"
proof -
  have v: "Values exampleMessage ''jobId'' = Some ''job_1''"
    by (simp add: exampleMessage_def)
  have t: "TrimSpace ''job_1'' \<noteq> []"
    by (simp add: TrimSpace_job_1)
  have m: "TrimSpace (MsgID exampleMessage) \<noteq> []"
    by (simp add: exampleMessage_def trim_eval)
  show ?thesis
    using handleOne_ack_rule [OF v t m, of "\<lambda>j. Returns (Some (ErrorString ''redis timeout''))"]
      handleOne_ack_rule [OF v t m, of "\<lambda>j. Returns (Terminal None)"]
      handleOne_ack_rule [OF v t m, of "\<lambda>j. Panics ''nil map''"]
    by (simp add: Terminal_def exampleMessage_def)
qed

section \<open>Invariants of the job record\<close>

lemmas mutator_defs =
  compute_markProcessing_def compute_persistResult_def compute_fail_def
  paygate_releasePaid_def paygate_releaseFree_def paygate_awaitPayment_def
  paygate_fail_def notify_mutator_def cancel_mutator_def intake_enqueueFailed_def

text \<open>
  C5. \<open>paid\<close> is monotone. Whatever mutator of the compute worker, the paygate worker, the
  notify handler, the cancel handler or the intake failure path runs on a job whose \<open>Paid\<close>
  is true, \<open>Paid\<close> is true afterwards; and so is the record that \<open>Update\<close> writes back to the
  store.
\<close>

theorem paid_is_monotone:
  assumes "Paid j"
  shows "Paid (applyMutator m j) \<and>
         (s ident = Some j \<longrightarrow>
            (\<exists>j'. fst (InMemory_Update s ident (applyMutator m)) ident = Some j' \<and> Paid j'))"
proof -
  have "Paid (applyMutator m j)"
    using assms by (cases m) (simp_all add: mutator_defs)
  then show ?thesis
    by (simp add: InMemory_Update_def)
qed

theorem paid_is_monotone_witness:
  "Paid paidJob \<and> Paid (applyMutator (CancelJob 30) paidJob) \<and>
   Paid (applyMutator (ComputeFail ''boom'') paidJob) \<and>
   Paid (applyMutator (PaygateAwaitPayment ''k'' 5 ''u'') paidJob)"
proof -
  have p: "Paid paidJob" by (simp add: paidJob_def)
  show ?thesis
    using p paid_is_monotone [OF p, of "CancelJob 30" Map.empty "[]"]
      paid_is_monotone [OF p, of "ComputeFail ''boom''" Map.empty "[]"]
      paid_is_monotone [OF p, of "PaygateAwaitPayment ''k'' 5 ''u''" Map.empty "[]"]
    by simp
qed

text \<open>
  C6. The claim is that a mutator that observes a cancelled or ready job leaves \<open>status\<close>,
  \<open>paid\<close> and \<open>cancelled_at\<close> alone. The mutators of \<open>Worker.fail\<close> (compute and paygate) and
  of the intake's enqueue failure set \<open>Status\<close> to \<open>failed\<close> without looking at it, where
  their sibling mutators return early on a cancelled job. Evaluated on a cancelled job:
  each of the three moves it to \<open>failed\<close>, also through the store's \<open>Update\<close>, while the
  guarded mutator \<open>ComputeMarkProcessing\<close> leaves it cancelled.
\<close>

theorem fail_mutators_overwrite_cancelled:
  "Status cancelledJob = CompareJobStatusCancelled \<and>
   Status (applyMutator (ComputeFail ''download failed'') cancelledJob) = CompareJobStatusFailed \<and>
   Status (applyMutator (PaygateFail ''order refused'') cancelledJob) = CompareJobStatusFailed \<and>
   Status (applyMutator (IntakeEnqueueFailed ''timeout'') cancelledJob) = CompareJobStatusFailed \<and>
   Status (applyMutator ComputeMarkProcessing cancelledJob) = CompareJobStatusCancelled \<and>
   map_option Status
     (snd (InMemory_Update [''job_1'' \<mapsto> cancelledJob] ''job_1''
             (applyMutator (ComputeFail ''download failed''))))
     = Some CompareJobStatusFailed"
  by (simp add: cancelledJob_def exampleJob_def mutator_defs InMemory_Update_def)

section \<open>The notify handler\<close>

lemma notify_mutator_Paid: "Paid (notify_mutator now j)"
  by (simp add: notify_mutator_def Let_def)

lemma notify_mutator_noop: "Paid j \<Longrightarrow> notify_mutator now j = j"
  by (simp add: notify_mutator_def)

lemma fold_notify_paid: "Paid j \<Longrightarrow> fold notify_mutator ts j = j"
  by (induction ts) (simp_all add: notify_mutator_noop)

lemma notify_handle_unfold:
  "notify_handle L now s tx =
     (let jobID = TrimSpace (OutTradeNo tx) in
      if jobID = [] then (s, Reply 400 ''FAIL'' ''missing out_trade_no'')
      else if ToUpper L (TradeState tx) \<noteq> ''SUCCESS'' then (s, Reply 200 ''SUCCESS'' ''OK'')
      else
        (case InMemory_Get s jobID of
           Some job \<Rightarrow>
             if AmountTotal tx \<noteq> expectedFen job
             then (s, Reply 400 ''FAIL'' ''amount mismatch'')
             else (fst (InMemory_Update s jobID (notify_mutator now)),
                   Reply 200 ''SUCCESS'' ''OK'')
         | None \<Rightarrow>
             (fst (InMemory_Update s jobID (notify_mutator now)),
              Reply 200 ''SUCCESS'' ''OK'')))"
  by (simp add: notify_handle_def notify_handle_on_def InMemoryStore_def Let_def
        cong: if_cong option.case_cong)

lemma notify_handle_replay:
  "fst (notify_handle L t2 (fst (notify_handle L t1 s tx)) tx) = fst (notify_handle L t1 s tx)"
proof (cases "s (TrimSpace (OutTradeNo tx))")
  case None
  then show ?thesis
    by (simp add: notify_handle_unfold InMemory_Get_def InMemory_Update_def Let_def)
next
  case (Some job)
  then show ?thesis
    by (simp add: notify_handle_unfold InMemory_Get_def InMemory_Update_def Let_def
          notify_mutator_noop notify_mutator_Paid)
qed

text \<open>
  C7. The notify handler is idempotent. Applying the update mutator of a SUCCESS
  notification once at time \<open>t\<close> and then again at any later times \<open>ts\<close> gives the record of
  the first application: the later ones see \<open>Paid\<close> and return. The same holds for the
  whole handler: handling the same notification a second time leaves the store as the first
  handling left it.
\<close>

theorem notify_is_idempotent:
  "fold notify_mutator ts (notify_mutator t j) = notify_mutator t j \<and>
   fst (notify_handle L t2 (fst (notify_handle L t s tx)) tx) = fst (notify_handle L t s tx)"
  by (simp add: fold_notify_paid notify_mutator_Paid notify_handle_replay)

theorem notify_is_idempotent_witness:
  "fold notify_mutator [31, 32, 33] (notify_mutator 30 awaitingJob) = notify_mutator 30 awaitingJob \<and>
   Status (notify_mutator 30 awaitingJob) = CompareJobStatusReady"
proof -
  have "hasResult awaitingJob"
    by (simp add: awaitingJob_def exampleJob_def hasResult_def trim_eval)
  then have "Status (notify_mutator 30 awaitingJob) = CompareJobStatusReady"
    by (simp add: notify_mutator_def hasResult_def awaitingJob_def exampleJob_def)
  with notify_is_idempotent [of "[31, 32, 33]" 30 awaitingJob asciiStd 31 Map.empty "exampleSuccess 5"]
  show ?thesis by blast
qed

text \<open>
  C8. The claim: a SUCCESS notification whose \<open>amount_total\<close> differs from the amount
  recorded on the job is rejected, and the update runs only when the amounts match. The
  code does not keep to it when the load of the job fails. The job below awaits a payment
  of 5 (in minor units) and the notification says 1. When \<open>Get\<close> answers, the handler
  replies FAIL and the database is as before. When the same \<open>Get\<close> returns an error (a
  timeout of the Redis call) the handler drops the error, skips the amount check and runs
  the update: the job is marked paid and released, and the reply is SUCCESS.
\<close>

theorem amount_check_skipped_when_get_fails:
  "Redis_Get None exampleDb ''job_1'' = (Some awaitingJob, None) \<and>
   Redis_Get (Some ''i/o timeout'') exampleDb ''job_1'' = (None, Some ''i/o timeout'') \<and>
   expectedFen awaitingJob = 5 \<and>
   AmountTotal (exampleSuccess 1) = 1 \<and>
   notify_handle_on asciiStd 30 (RedisStore None None) exampleDb (exampleSuccess 1) =
     (exampleDb, Reply 400 ''FAIL'' ''amount mismatch'') \<and>
   notify_handle_on asciiStd 30 (RedisStore (Some ''i/o timeout'') None) exampleDb
       (exampleSuccess 1) =
     (exampleDb(redisKey ''job_1'' \<mapsto>
        awaitingJob\<lparr>Paid := True, PaidAt := Some 30, Status := CompareJobStatusReady,
                    AmountYuan := 0, CodeURL := []\<rparr>),
      Reply 200 ''SUCCESS'' ''OK'')"
proof -
  have e: "expectedFen awaitingJob = 5"
    by (simp add: expectedFen_def mathRound_def awaitingJob_def exampleJob_def)
  have a: "AmountTotal (exampleSuccess 1) = 1"
    by (simp add: exampleSuccess_def)
  have g: "Redis_Get None exampleDb ''job_1'' = (Some awaitingJob, None)"
    by (simp add: Redis_Get_def TrimSpace_job_1 exampleDb_def)
  have gf: "Redis_Get (Some ''i/o timeout'') exampleDb ''job_1'' = (None, Some ''i/o timeout'')"
    by (simp add: Redis_Get_def TrimSpace_job_1)
  have h: "hasResult awaitingJob"
    by (simp add: awaitingJob_def exampleJob_def hasResult_def trim_eval)
  have n: "notify_mutator 30 awaitingJob =
      awaitingJob\<lparr>Paid := True, PaidAt := Some 30, Status := CompareJobStatusReady,
                  AmountYuan := 0, CodeURL := []\<rparr>"
    using h by (simp add: notify_mutator_def hasResult_def awaitingJob_def exampleJob_def)
  have u: "Redis_Update None exampleDb ''job_1'' (notify_mutator 30) =
      (exampleDb(redisKey ''job_1'' \<mapsto> notify_mutator 30 awaitingJob),
       Some (notify_mutator 30 awaitingJob), None)"
    by (simp add: Redis_Update_def TrimSpace_job_1 exampleDb_def)
  have r1: "notify_handle_on asciiStd 30 (RedisStore None None) exampleDb (exampleSuccess 1) =
      (exampleDb, Reply 400 ''FAIL'' ''amount mismatch'')"
    by (simp add: notify_handle_on_def RedisStore_def TrimSpace_out_trade_no
          ToUpper_trade_state g e a)
  have r2: "notify_handle_on asciiStd 30 (RedisStore (Some ''i/o timeout'') None) exampleDb
        (exampleSuccess 1) =
      (exampleDb(redisKey ''job_1'' \<mapsto> notify_mutator 30 awaitingJob),
       Reply 200 ''SUCCESS'' ''OK'')"
    by (simp add: notify_handle_on_def RedisStore_def TrimSpace_out_trade_no
          ToUpper_trade_state gf u)
  show ?thesis
    using e a g gf r1 r2 unfolding n by blast
qed

text \<open>
  C10. A SUCCESS notification with the expected amount for a job that is cancelled and not
  paid sets \<open>Paid\<close> and \<open>PaidAt\<close> on the record and leaves every other field, \<open>Status\<close>
  included, as it was: the job is cancelled and paid.
\<close>

theorem notify_on_cancelled_job:
  assumes "TrimSpace (OutTradeNo tx) = jobID" and "jobID \<noteq> []"
    and "ToUpper L (TradeState tx) = ''SUCCESS''"
    and "InMemory_Get s jobID = Some job"
    and "Status job = CompareJobStatusCancelled" and "\<not> Paid job"
    and "AmountTotal tx = expectedFen job"
  shows "notify_handle L now s tx =
           (s(jobID \<mapsto> job\<lparr>Paid := True, PaidAt := Some now\<rparr>), Reply 200 ''SUCCESS'' ''OK'') \<and>
         Status (job\<lparr>Paid := True, PaidAt := Some now\<rparr>) = CompareJobStatusCancelled"
  using assms
  by (simp add: notify_handle_unfold Let_def InMemory_Get_def InMemory_Update_def notify_mutator_def)

theorem notify_on_cancelled_job_witness:
  "notify_handle asciiStd 30 [''job_1'' \<mapsto> cancelledJob] (exampleSuccess 1) =
     ([''job_1'' \<mapsto> cancelledJob\<lparr>Paid := True, PaidAt := Some 30\<rparr>], Reply 200 ''SUCCESS'' ''OK'') \<and>
   Status (cancelledJob\<lparr>Paid := True, PaidAt := Some 30\<rparr>) = CompareJobStatusCancelled \<and>
   \<not> Paid cancelledJob"
proof -
  have g: "InMemory_Get [''job_1'' \<mapsto> cancelledJob] ''job_1'' = Some cancelledJob"
    by (simp add: InMemory_Get_def)
  have c: "Status cancelledJob = CompareJobStatusCancelled"
    by (simp add: cancelledJob_def)
  have p: "\<not> Paid cancelledJob"
    by (simp add: cancelledJob_def exampleJob_def)
  have e: "AmountTotal (exampleSuccess 1) = expectedFen cancelledJob"
    by (simp add: expectedFen_def mathRound_def cancelledJob_def exampleJob_def exampleSuccess_def)
  have ne: "''job_1'' \<noteq> []" by simp
  show ?thesis
    using notify_on_cancelled_job [OF TrimSpace_out_trade_no ne ToUpper_trade_state g c p e,
        where now = 30 and L = asciiStd] p
    by simp
qed

section \<open>Creating a job\<close>

text \<open>
  C9. The claim is that \<open>Create\<close> inserts only if the id is absent and fails with an
  \<open>exists\<close> error otherwise. Evaluated on a store that holds a paid, ready job under the id
  \<open>job_1\<close>, with a fresh job of the same id: the in-memory store overwrites the record and
  returns no error; the Redis store keeps the record (\<open>SetNX\<close> does not set) and returns no
  error either, since only the transport error of the command is returned.
\<close>

theorem create_on_existing_id:
  "InMemory_Create [''job_1'' \<mapsto> paidJob] exampleJob = ([''job_1'' \<mapsto> exampleJob], None) \<and>
   Redis_Create None [redisKey ''job_1'' \<mapsto> paidJob] exampleJob =
     ([redisKey ''job_1'' \<mapsto> paidJob], None) \<and>
   ID exampleJob = ''job_1'' \<and> ID paidJob = ''job_1'' \<and> exampleJob \<noteq> paidJob"
proof -
  have t: "TrimSpace (ID exampleJob) = ''job_1''"
    by (simp add: exampleJob_def trim_eval)
  have i: "ID exampleJob = ''job_1''" "ID paidJob = ''job_1''"
    by (simp_all add: exampleJob_def paidJob_def)
  have ne: "exampleJob \<noteq> paidJob"
    by (simp add: exampleJob_def paidJob_def)
  show ?thesis
    using t i ne by (simp add: InMemory_Create_def Redis_Create_def SetNX_def)
qed

section \<open>Scalar normalization\<close>

lemma not_digit_simps [simp]:
  "\<not> isDigitByte (CHR ''.'')" "\<not> isDigitByte (CHR ''+'')" "\<not> isDigitByte (CHR ''-'')"
  by (simp_all add: isDigitByte_def)

lemma length_takeWhile_eq_iff:
  "length (takeWhile Q xs) = length xs \<longleftrightarrow> list_all Q xs"
  by (induction xs) (auto)

lemma looksLike_body:
  "looksLikeIntegerFloatString s \<longleftrightarrow> s \<noteq> [] \<and> bodyOK (drop (signLen s) s)"
proof (cases "s = []")
  case True
  then show ?thesis by (simp add: looksLikeIntegerFloatString_def)
next
  case False
  define i0 where "i0 = signLen s"
  define b where "b = drop i0 s"
  define ds where "ds = takeWhile isDigitByte b"
  define rest where "rest = dropWhile isDigitByte b"
  have i0le: "i0 \<le> length s"
    using False by (auto simp: i0_def signLen_def Suc_le_eq)
  have b: "b = ds @ rest" by (simp add: ds_def rest_def)
  have len: "length s = i0 + length ds + length rest"
    using i0le b unfolding b_def
    by (metis add.assoc le_add_diff_inverse length_append length_drop)
  have i0': "(if hd s = CHR ''+'' \<or> hd s = CHR ''-'' then 1 else 0) = i0"
    using False by (simp add: i0_def signLen_def)
  show ?thesis
  proof (cases "ds = [] \<or> rest = []")
    case True
    then have "\<not> bodyOK b" by (auto simp: bodyOK_def ds_def rest_def Let_def)
    moreover have "\<not> looksLikeIntegerFloatString s"
      using True False len i0le
      by (auto simp: looksLikeIntegerFloatString_def Let_def i0' ds_def [symmetric] b_def [symmetric])
    ultimately show ?thesis by (simp add: b_def i0_def)
  next
    case ne: False
    have nth: "s ! (i0 + length ds) = hd rest"
    proof -
      have "s ! (i0 + length ds) = b ! length ds"
        using i0le by (simp add: b_def)
      also have "\<dots> = hd rest" using ne by (simp add: b nth_append hd_conv_nth)
      finally show ?thesis .
    qed
    have dr: "drop (i0 + length ds + 1) s = tl rest"
    proof -
      have "drop (i0 + length ds + 1) s = drop (length ds + 1) b"
        by (simp add: b_def add.commute)
      also have "\<dots> = tl rest" by (simp add: b drop_Suc)
      finally show ?thesis .
    qed
    have lt: "length (tl rest) = length rest - 1" by simp
    have zl: "i0 + length ds + 1 + length (takeWhile (\<lambda>c. c = CHR ''0'') (tl rest)) = length s
        \<longleftrightarrow> list_all (\<lambda>c. c = CHR ''0'') (tl rest)"
      using ne len length_takeWhile_eq_iff [of "\<lambda>c. c = CHR ''0''" "tl rest"]
      by (cases rest) auto
    have "looksLikeIntegerFloatString s \<longleftrightarrow>
        hd rest = CHR ''.'' \<and> tl rest \<noteq> [] \<and> list_all (\<lambda>c. c = CHR ''0'') (tl rest)"
      using ne False len nth dr zl
      apply (simp add: looksLikeIntegerFloatString_def Let_def i0' ds_def [symmetric] b_def [symmetric])
      apply (cases "tl rest")
       apply auto
      done
    moreover have "bodyOK b \<longleftrightarrow>
        hd rest = CHR ''.'' \<and> tl rest \<noteq> [] \<and> list_all (\<lambda>c. c = CHR ''0'') (tl rest)"
      using ne by (simp add: bodyOK_def Let_def ds_def rest_def)
    ultimately show ?thesis using False by (simp add: b_def i0_def)
  qed
qed

lemma bodyOK_iff:
  "bodyOK b \<longleftrightarrow>
     (\<exists>ds zs. b = ds @ CHR ''.'' # zs \<and> ds \<noteq> [] \<and> list_all isDigitByte ds \<and> zs \<noteq> [] \<and>
        list_all (\<lambda>c. c = CHR ''0'') zs)"
proof
  assume ok: "bodyOK b"
  let ?ds = "takeWhile isDigitByte b" and ?rest = "dropWhile isDigitByte b"
  from ok have r: "?rest = CHR ''.'' # tl ?rest"
    by (cases ?rest) (auto simp: bodyOK_def Let_def)
  have "b = ?ds @ ?rest" by simp
  with r have "b = ?ds @ CHR ''.'' # tl ?rest" by metis
  moreover have "list_all isDigitByte ?ds"
    by (simp add: list_all_iff) (meson set_takeWhileD)
  ultimately show "\<exists>ds zs. b = ds @ CHR ''.'' # zs \<and> ds \<noteq> [] \<and> list_all isDigitByte ds \<and>
      zs \<noteq> [] \<and> list_all (\<lambda>c. c = CHR ''0'') zs"
    using ok by (auto simp: bodyOK_def Let_def)
next
  assume "\<exists>ds zs. b = ds @ CHR ''.'' # zs \<and> ds \<noteq> [] \<and> list_all isDigitByte ds \<and> zs \<noteq> [] \<and>
      list_all (\<lambda>c. c = CHR ''0'') zs"
  then obtain ds zs where b: "b = ds @ CHR ''.'' # zs" and ds: "ds \<noteq> []" "list_all isDigitByte ds"
    and zs: "zs \<noteq> []" "list_all (\<lambda>c. c = CHR ''0'') zs" by blast
  have "takeWhile isDigitByte b = ds" "dropWhile isDigitByte b = CHR ''.'' # zs"
    using ds by (simp_all add: b list_all_iff takeWhile_tail dropWhile_append)
  then show "bodyOK b" using ds zs by (simp add: bodyOK_def)
qed

lemma matches_signLen:
  assumes "matchesIntFloat s sg ds zs"
  shows "s \<noteq> []" and "signLen s = length sg" and "drop (signLen s) s = ds @ CHR ''.'' # zs"
proof -
  from assms have s: "s = sg @ ds @ CHR ''.'' # zs" and sg: "sg = [] \<or> sg = ''+'' \<or> sg = ''-''"
    and ds: "ds \<noteq> []" "list_all isDigitByte ds"
    by (simp_all add: matchesIntFloat_def)
  show "s \<noteq> []" using s by simp
  have hd: "isDigitByte (hd ds)" using ds by (cases ds) simp_all
  then have nd: "hd ds \<noteq> CHR ''+''" "hd ds \<noteq> CHR ''-''" by auto
  show l: "signLen s = length sg"
    using sg s ds nd by (auto simp: signLen_def)
  show "drop (signLen s) s = ds @ CHR ''.'' # zs"
    unfolding l using s by simp
qed

lemma looksLike_iff_matches:
  "looksLikeIntegerFloatString s \<longleftrightarrow> (\<exists>sg ds zs. matchesIntFloat s sg ds zs)"
proof
  assume "looksLikeIntegerFloatString s"
  then have ne: "s \<noteq> []" and ok: "bodyOK (drop (signLen s) s)"
    by (simp_all add: looksLike_body)
  from ok obtain ds zs where b: "drop (signLen s) s = ds @ CHR ''.'' # zs"
    and r: "ds \<noteq> []" "list_all isDigitByte ds" "zs \<noteq> []" "list_all (\<lambda>c. c = CHR ''0'') zs"
    unfolding bodyOK_iff by blast
  have s: "s = take (signLen s) s @ ds @ CHR ''.'' # zs"
    using b by (metis append_take_drop_id)
  have "take (signLen s) s = [] \<or> take (signLen s) s = ''+'' \<or> take (signLen s) s = ''-''"
    using ne by (cases s) (auto simp: signLen_def)
  then have "matchesIntFloat s (take (signLen s) s) ds zs"
    using s r unfolding matchesIntFloat_def by blast
  then show "\<exists>sg ds zs. matchesIntFloat s sg ds zs" by blast
next
  assume "\<exists>sg ds zs. matchesIntFloat s sg ds zs"
  then obtain sg ds zs where m: "matchesIntFloat s sg ds zs" by blast
  have "bodyOK (ds @ CHR ''.'' # zs)"
    unfolding bodyOK_iff using m by (auto simp: matchesIntFloat_def)
  then show "looksLikeIntegerFloatString s"
    using matches_signLen [OF m] by (simp add: looksLike_body)
qed

lemma integerPart_matches:
  assumes "matchesIntFloat s sg ds zs"
  shows "integerPart s = signedValue sg ds"
proof -
  from assms have s: "s = sg @ ds @ CHR ''.'' # zs" and sg: "sg = [] \<or> sg = ''+'' \<or> sg = ''-''"
    and ds: "ds \<noteq> []" "list_all isDigitByte ds"
    by (simp_all add: matchesIntFloat_def)
  have hd: "isDigitByte (hd ds)" using ds by (cases ds) simp_all
  then have nd: "hd ds \<noteq> CHR ''+''" "hd ds \<noteq> CHR ''-''" by auto
  have tw: "takeWhile isDigitByte (ds @ CHR ''.'' # zs) = ds"
    using ds by (simp add: list_all_iff takeWhile_tail)
  from sg show ?thesis
  proof (elim disjE)
    assume "sg = []"
    then show ?thesis using s ds nd tw by (simp add: integerPart_def signedValue_def)
  next
    assume "sg = ''+''"
    then show ?thesis using s tw by (simp add: integerPart_def signedValue_def)
  next
    assume "sg = ''-''"
    then show ?thesis using s tw by (simp add: integerPart_def signedValue_def)
  qed
qed

lemma roundToFloat64_small: "\<bar>n\<bar> < 2 ^ 53 \<Longrightarrow> roundToFloat64 n = n"
  by (simp add: roundToFloat64_def)

lemma roundToFloat64_large:
  assumes "\<bar>n\<bar> \<ge> 2 ^ 53"
  shows "\<bar>roundToFloat64 n\<bar> \<ge> 2 ^ 53 \<and> (n > 0 \<longrightarrow> roundToFloat64 n > 0) \<and> (n < 0 \<longrightarrow> roundToFloat64 n < 0)"
proof -
  define a where "a = \<bar>n\<bar>"
  define e where "e = nat (bitlen a) - 53"
  define q where "q = a div 2 ^ e"
  define r where "r = a mod 2 ^ e"
  define q1 where "q1 = (if 2 * r > 2 ^ e \<or> (2 * r = 2 ^ e \<and> odd q) then q + 1 else q)"
  have a: "a \<ge> 2 ^ 53" using assms by (simp add: a_def)
  then have apos: "a > 0" by (smt (verit) zero_less_power)
  have bl: "2 ^ nat (bitlen a - 1) \<le> a" "a < 2 ^ nat (bitlen a)"
    using bitlen_bounds [OF apos] by simp_all
  have p: "(2::int) ^ 53 < 2 ^ nat (bitlen a)" using a bl(2) by linarith
  have b54: "53 < nat (bitlen a)"
    by (rule power_less_imp_less_exp [where a = "2::int"]) (simp, rule p)
  then have e: "nat (bitlen a - 1) = 52 + e" unfolding e_def by (simp add: nat_diff_distrib)
  have "(2::int) ^ 52 * 2 ^ e \<le> a" using bl(1) unfolding e by (simp add: power_add)
  then have "2 ^ 52 \<le> q" unfolding q_def
    by (metis (no_types) zdiv_mono1 nonzero_mult_div_cancel_right zero_less_numeral zero_less_power less_irrefl)
  then have q1: "q1 \<ge> 2 ^ 52" unfolding q1_def by auto
  have e1: "e \<ge> 1" using b54 unfolding e_def by simp
  then have "(2::int) ^ e \<ge> 2" by (metis power_increasing one_le_numeral power_one_right)
  then have big: "q1 * 2 ^ e \<ge> 2 ^ 52 * 2"
    using q1 by (meson mult_mono zero_le_numeral zero_le_power order_trans)
  have v: "roundToFloat64 n = sgn n * (q1 * 2 ^ e)"
    using a unfolding roundToFloat64_def Let_def a_def [symmetric] e_def [symmetric]
      q_def [symmetric] r_def [symmetric] q1_def [symmetric]
    by simp
  have pos: "q1 * 2 ^ e > 0" using big by simp
  have n0: "n \<noteq> 0" using assms by auto
  have q1pos: "\<bar>q1\<bar> = q1" using q1 by simp
  show ?thesis
    unfolding v using big pos n0 q1pos
    by (auto simp: abs_mult sgn_if)
qed

lemma float_branch:
  assumes "looksLikeIntegerFloatString s"
  shows "(case ParseFloat L s of
            Some f \<Rightarrow>
              if f64_gt f 9000000000000000 \<or> f64_lt f (- 9000000000000000) then s
              else (let i = toInt64 f in if f64_eq (fromInt64 i) f then FormatInt i else s)
          | None \<Rightarrow> s)
         = (if \<bar>integerPart s\<bar> \<le> 9000000000000000 then FormatInt (integerPart s) else s)"
proof -
  define n where "n = integerPart s"
  define v where "v = roundToFloat64 n"
  have pf: "ParseFloat L s = (if \<bar>v\<bar> \<ge> 2 ^ 1024 then None else Some (Finite (real_of_int v)))"
    using assms by (simp add: ParseFloat_def Let_def v_def n_def)
  have c53: "(9000000000000000 :: int) < 2 ^ 53" by simp
  have p53: "(2 :: int) ^ 53 < 2 ^ 1024"
    by (rule power_strict_increasing) simp_all
  show ?thesis
  proof (cases "\<bar>n\<bar> \<le> 9000000000000000")
    case True
    then have small: "\<bar>n\<bar> < 2 ^ 53" using c53 by linarith
    then have vn: "v = n" by (simp add: v_def roundToFloat64_small)
    have "\<bar>n\<bar> < 2 ^ 1024" using small p53 by linarith
    then have pf': "ParseFloat L s = Some (Finite (real_of_int n))"
      by (simp add: pf vn)
    have le: "real_of_int n \<le> 9000000000000000" "- 9000000000000000 \<le> real_of_int n"
      using True by linarith+
    have ti: "toInt64 (Finite (real_of_int n)) = n" by simp
    have fi: "fromInt64 n = Finite (real_of_int n)"
      using small by (simp add: fromInt64_def roundToFloat64_small)
    show ?thesis
      using True le by (simp add: pf' ti fi n_def [symmetric] not_less)
  next
    case False
    then have big: "\<bar>n\<bar> > 9000000000000000" by simp
    have vbig: "(v > 9000000000000000 \<or> v < - 9000000000000000)"
    proof (cases "\<bar>n\<bar> < 2 ^ 53")
      case True
      then have "v = n" by (simp add: v_def roundToFloat64_small)
      then show ?thesis using big by linarith
    next
      case False
      then have "\<bar>n\<bar> \<ge> 2 ^ 53" by simp
      from roundToFloat64_large [OF this] have "\<bar>v\<bar> \<ge> 2 ^ 53" by (simp add: v_def)
      then show ?thesis using c53 by linarith
    qed
    then have r: "real_of_int v > 9000000000000000 \<or> real_of_int v < - 9000000000000000"
      by linarith
    show ?thesis
      using False r by (simp add: pf n_def [symmetric])
  qed
qed

lemma normalize_unfold:
  "normalizeScalarForCompare L v =
     (let s = TrimSpace v in
      if s = [] \<or> ToLower L s = ''nan'' \<or> ToLower L s = ''nat'' \<or> ToLower L s = ''none'' then []
      else if looksLikeIntegerFloatString s \<and> \<bar>integerPart s\<bar> \<le> 9000000000000000
      then FormatInt (integerPart s) else s)"
  by (simp add: normalizeScalarForCompare_def Let_def float_branch)

lemma digit_ascii: "isDigitByte c \<Longrightarrow> isASCII c"
  by (simp add: isDigitByte_def isASCII_def)

lemma matches_lower:
  assumes "matchesIntFloat s sg ds zs"
  shows "ToLower L s \<noteq> ''nan''" "ToLower L s \<noteq> ''nat''" "ToLower L s \<noteq> ''none''"
proof -
  from assms have s: "s = sg @ ds @ CHR ''.'' # zs" and sg: "sg = [] \<or> sg = ''+'' \<or> sg = ''-''"
    and ds: "list_all isDigitByte ds" and zs: "list_all (\<lambda>c. c = CHR ''0'') zs"
    by (simp_all add: matchesIntFloat_def)
  have "list_all isASCII ds" using ds by (auto simp: list_all_iff digit_ascii)
  moreover have "list_all isASCII zs" using zs by (induction zs) (simp_all add: isASCII_def)
  moreover have "list_all isASCII sg" using sg by (auto simp: isASCII_def)
  moreover have "isASCII (CHR ''.'')" by (simp add: isASCII_def)
  ultimately have "list_all isASCII s" by (simp add: s)
  then have l: "ToLower L s = map asciiLower s" by (simp add: ToLower_def)
  have low: "asciiLower (CHR ''.'') = CHR ''.''" by (simp add: asciiLower_def)
  have mem: "CHR ''.'' \<in> set s" by (simp add: s)
  have "asciiLower (CHR ''.'') \<in> asciiLower ` set s" using mem by (rule imageI)
  then have dot: "CHR ''.'' \<in> set (ToLower L s)" by (simp add: l low)
  show "ToLower L s \<noteq> ''nan''"
  proof
    assume e: "ToLower L s = ''nan''"
    from dot have "CHR ''.'' \<in> set ''nan''" by (simp only: e)
    then show False by simp
  qed
  show "ToLower L s \<noteq> ''nat''"
  proof
    assume e: "ToLower L s = ''nat''"
    from dot have "CHR ''.'' \<in> set ''nat''" by (simp only: e)
    then show False by simp
  qed
  show "ToLower L s \<noteq> ''none''"
  proof
    assume e: "ToLower L s = ''none''"
    from dot have "CHR ''.'' \<in> set ''none''" by (simp only: e)
    then show False by simp
  qed
qed

lemmas scan_eval =
  looksLikeIntegerFloatString_def isDigitByte_def integerPart_def decimalValue_def

lemmas lower_eval = ToLower_def isASCII_def asciiLower_def

lemma eval_trim:
  "TrimSpace ''1.00'' = ''1.00''" "TrimSpace ''1.0'' = ''1.0''"
  "TrimSpace ''001'' = ''001''" "TrimSpace ''1'' = ''1''"
  by (simp_all add: trim_eval)

lemma eval_lower:
  "ToLower L ''1.00'' = ''1.00''" "ToLower L ''1.0'' = ''1.0''"
  "ToLower L ''001'' = ''001''" "ToLower L ''1'' = ''1''"
  by (simp_all add: lower_eval)

lemma eval_scan:
  "looksLikeIntegerFloatString ''1.00''" "integerPart ''1.00'' = 1"
  "looksLikeIntegerFloatString ''1.0''" "integerPart ''1.0'' = 1"
  "\<not> looksLikeIntegerFloatString ''001''" "\<not> looksLikeIntegerFloatString ''1''"
  by (simp_all add: scan_eval)

lemma eval_fmt_1: "FormatInt 1 = ''1''"
  by (simp add: FormatInt_def digitsOf.simps)

text \<open>
  C2. Scalar normalization, for every input \<open>v\<close>, with \<open>s\<close> the trimmed input:
  \<^item> the result is empty when \<open>s\<close> is empty or its lower-case form is \<open>nan\<close>, \<open>nat\<close> or
    \<open>none\<close>;
  \<^item> when \<open>s\<close> matches \<open>^[+-]?\d+(\.0+)$\<close> and its value is at most \<open>9e15\<close> in
    magnitude, the result is the value written by \<open>FormatInt\<close> (for such a value the parsed
    \<open>float64\<close> is exact and equal to its truncation, see \<open>float_branch\<close>);
  \<^item> in every other case the result is \<open>s\<close>;
  \<^item> \<open>1.00\<close> gives \<open>1\<close>, \<open>001\<close> stays \<open>001\<close>, \<open>1.0\<close> and \<open>1\<close> normalize to the same string,
    \<open>001\<close> and \<open>1\<close> to different ones.
\<close>

theorem normalizeScalarForCompare_cases:
  "(TrimSpace v = [] \<or> ToLower L (TrimSpace v) = ''nan'' \<or> ToLower L (TrimSpace v) = ''nat'' \<or>
      ToLower L (TrimSpace v) = ''none''
      \<longrightarrow> normalizeScalarForCompare L v = []) \<and>
   (\<forall>sg ds zs. matchesIntFloat (TrimSpace v) sg ds zs \<and> \<bar>signedValue sg ds\<bar> \<le> 9000000000000000
      \<longrightarrow> normalizeScalarForCompare L v = FormatInt (signedValue sg ds)) \<and>
   (TrimSpace v \<noteq> [] \<and> ToLower L (TrimSpace v) \<noteq> ''nan'' \<and> ToLower L (TrimSpace v) \<noteq> ''nat'' \<and>
      ToLower L (TrimSpace v) \<noteq> ''none'' \<and>
      \<not> (\<exists>sg ds zs. matchesIntFloat (TrimSpace v) sg ds zs \<and>
             \<bar>signedValue sg ds\<bar> \<le> 9000000000000000)
      \<longrightarrow> normalizeScalarForCompare L v = TrimSpace v) \<and>
   normalizeScalarForCompare L ''1.00'' = ''1'' \<and>
   normalizeScalarForCompare L ''001'' = ''001'' \<and>
   normalizeScalarForCompare L ''1.0'' = normalizeScalarForCompare L ''1'' \<and>
   normalizeScalarForCompare L ''001'' \<noteq> normalizeScalarForCompare L ''1''"
proof (intro conjI allI impI)
  assume "TrimSpace v = [] \<or> ToLower L (TrimSpace v) = ''nan'' \<or>
      ToLower L (TrimSpace v) = ''nat'' \<or> ToLower L (TrimSpace v) = ''none''"
  then show "normalizeScalarForCompare L v = []"
    by (auto simp: normalize_unfold)
next
  fix sg ds zs
  assume a: "matchesIntFloat (TrimSpace v) sg ds zs \<and> \<bar>signedValue sg ds\<bar> \<le> 9000000000000000"
  then have m: "matchesIntFloat (TrimSpace v) sg ds zs" by simp
  have ll: "looksLikeIntegerFloatString (TrimSpace v)"
    using m looksLike_iff_matches by blast
  have ne: "TrimSpace v \<noteq> []" using m by (auto simp: matchesIntFloat_def)
  show "normalizeScalarForCompare L v = FormatInt (signedValue sg ds)"
    using a ll ne matches_lower [OF m, of L] integerPart_matches [OF m]
    by (simp add: normalize_unfold)
next
  assume a: "TrimSpace v \<noteq> [] \<and> ToLower L (TrimSpace v) \<noteq> ''nan'' \<and>
      ToLower L (TrimSpace v) \<noteq> ''nat'' \<and> ToLower L (TrimSpace v) \<noteq> ''none'' \<and>
      \<not> (\<exists>sg ds zs. matchesIntFloat (TrimSpace v) sg ds zs \<and>
             \<bar>signedValue sg ds\<bar> \<le> 9000000000000000)"
  have "\<not> (looksLikeIntegerFloatString (TrimSpace v) \<and>
           \<bar>integerPart (TrimSpace v)\<bar> \<le> 9000000000000000)"
  proof
    assume b: "looksLikeIntegerFloatString (TrimSpace v) \<and>
           \<bar>integerPart (TrimSpace v)\<bar> \<le> 9000000000000000"
    then obtain sg ds zs where m: "matchesIntFloat (TrimSpace v) sg ds zs"
      using looksLike_iff_matches by blast
    with b integerPart_matches [OF m] a show False by auto
  qed
  with a show "normalizeScalarForCompare L v = TrimSpace v"
    unfolding normalize_unfold Let_def by (simp only: if_False simp_thms)
next
  show "normalizeScalarForCompare L ''1.00'' = ''1''"
    by (simp add: normalize_unfold Let_def eval_trim eval_lower eval_scan eval_fmt_1)
next
  show "normalizeScalarForCompare L ''001'' = ''001''"
    by (simp add: normalize_unfold Let_def eval_trim eval_lower eval_scan)
next
  show "normalizeScalarForCompare L ''1.0'' = normalizeScalarForCompare L ''1''"
    by (simp add: normalize_unfold Let_def eval_trim eval_lower eval_scan eval_fmt_1)
next
  show "normalizeScalarForCompare L ''001'' \<noteq> normalizeScalarForCompare L ''1''"
    by (simp add: normalize_unfold Let_def eval_trim eval_lower eval_scan)
qed

theorem normalizeScalarForCompare_cases_witness:
  "normalizeScalarForCompare asciiStd ''  -007.000 '' = ''-7'' \<and>
   normalizeScalarForCompare asciiStd '' NaN'' = [] \<and>
   normalizeScalarForCompare asciiStd ''9000000000000001.0'' = ''9000000000000001.0''"
proof -
  have t1: "TrimSpace ''  -007.000 '' = ''-007.000''" by (simp add: trim_eval)
  have m1: "matchesIntFloat ''-007.000'' ''-'' ''007'' ''000''"
    by (simp add: matchesIntFloat_def isDigitByte_def)
  have v1: "signedValue ''-'' ''007'' = -7"
    by (simp add: signedValue_def decimalValue_def)
  have f1: "FormatInt (-7) = ''-7''" by (simp add: FormatInt_def digitsOf.simps)
  have t2: "TrimSpace '' NaN'' = ''NaN''" by (simp add: trim_eval)
  have l2: "ToLower asciiStd ''NaN'' = ''nan''"
    by (simp add: ToLower_def isASCII_def asciiLower_def)
  have t3: "TrimSpace ''9000000000000001.0'' = ''9000000000000001.0''" by (simp add: trim_eval)
  have l3: "ToLower asciiStd ''9000000000000001.0'' = ''9000000000000001.0''"
    by (simp add: ToLower_def isASCII_def asciiLower_def)
  have n3: "\<not> (\<exists>sg ds zs. matchesIntFloat ''9000000000000001.0'' sg ds zs \<and>
             \<bar>signedValue sg ds\<bar> \<le> 9000000000000000)"
  proof
    assume "\<exists>sg ds zs. matchesIntFloat ''9000000000000001.0'' sg ds zs \<and>
             \<bar>signedValue sg ds\<bar> \<le> 9000000000000000"
    then obtain sg ds zs where m: "matchesIntFloat ''9000000000000001.0'' sg ds zs"
      and b: "\<bar>signedValue sg ds\<bar> \<le> 9000000000000000" by blast
    have "integerPart ''9000000000000001.0'' = 9000000000000001"
      by (simp add: integerPart_def decimalValue_def isDigitByte_def)
    with integerPart_matches [OF m] b show False by simp
  qed
  note c1 = normalizeScalarForCompare_cases [of "''  -007.000 ''" asciiStd, unfolded t1]
  note c2 = normalizeScalarForCompare_cases [of "'' NaN''" asciiStd, unfolded t2]
  note c3 = normalizeScalarForCompare_cases [of "''9000000000000001.0''" asciiStd, unfolded t3]
  have r1: "normalizeScalarForCompare asciiStd ''  -007.000 '' = ''-7''"
    using c1 [THEN conjunct2, THEN conjunct1, rule_format, of "''-''" "''007''" "''000''"] m1 v1 f1
    by simp
  have r2: "normalizeScalarForCompare asciiStd '' NaN'' = []"
    using c2 [THEN conjunct1] l2 by simp
  have ne3: "''9000000000000001.0'' \<noteq> []" "''9000000000000001.0'' \<noteq> ''nan''"
    "''9000000000000001.0'' \<noteq> ''nat''" "''9000000000000001.0'' \<noteq> ''none''"
    by simp_all
  have r3: "normalizeScalarForCompare asciiStd ''9000000000000001.0'' = ''9000000000000001.0''"
    using c3 [THEN conjunct2, THEN conjunct2, THEN conjunct1, unfolded l3] ne3 n3 by blast
  show ?thesis using r1 r2 r3 by blast
qed

section \<open>Key column inference\<close>

lemma gatherValues_eq:
  "gatherValues rows i =
     (if list_all (\<lambda>row. i < length row \<and> TrimSpace (row ! i) \<noteq> []) rows
      then Some (map (\<lambda>row. TrimSpace (row ! i)) rows) else None)"
  by (induction rows) (auto simp: Let_def)

lemma hasDuplicate_iff:
  "hasDuplicate vs U \<longleftrightarrow> \<not> distinct vs \<or> (\<exists>v\<in>set vs. v \<in> U)"
  by (induction vs arbitrary: U) auto

lemma fold_keyword_score:
  "fold (\<lambda>kw score. if P kw then score + 10 else score) kws (a :: int)
     = a + 10 * int (length (filter P kws))"
  by (induction kws arbitrary: a) auto

lemma keywordScore_eq: "keywordScore L colName = 10 * int (length (keywordHits L colName))"
  by (simp add: keywordScore_def keywordHits_def Let_def fold_keyword_score)

lemma sample_take:
  assumes "0 < c"
  shows "take (if int (length rows) < c then length rows else nat c) rows = take (nat c) rows"
  using assms by auto

lemma sample_zero:
  assumes "0 < c"
  shows "(if int (length rows) < c then length rows else nat c) = 0 \<longleftrightarrow> take (nat c) rows = []"
  using assms by auto

lemma columnStep_unfold:
  assumes "0 < c"
  shows "columnStep L tbl c (i, name) best =
     (if take (nat c) (Rows tbl) = [] then best
      else if \<not> list_all (\<lambda>row. i < length row \<and> TrimSpace (row ! i) \<noteq> []) (take (nat c) (Rows tbl))
      then best
      else if \<not> distinct (map (\<lambda>row. TrimSpace (row ! i)) (take (nat c) (Rows tbl))) then best
      else if 10 * int (length (keywordHits L name)) +
                (if list_all (pkish L) (map (\<lambda>row. TrimSpace (row ! i)) (take (nat c) (Rows tbl)))
                 then 5 else 0) > snd best
      then (name, 10 * int (length (keywordHits L name)) +
                (if list_all (pkish L) (map (\<lambda>row. TrimSpace (row ! i)) (take (nat c) (Rows tbl)))
                 then 5 else 0))
      else best)"
proof -
  define n where "n = (if int (length (Rows tbl)) < c then length (Rows tbl) else nat c)"
  define rows where "rows = take (nat c) (Rows tbl)"
  have tk: "take n (Rows tbl) = rows"
    using assms by (auto simp: n_def rows_def)
  have n0: "n = 0 \<longleftrightarrow> rows = []"
    using assms by (auto simp: n_def rows_def)
  have step: "columnStep L tbl c (i, name) best =
     (if n = 0 then best
       else
         (case gatherValues (take n (Rows tbl)) i of
            None \<Rightarrow> best
          | Some vals \<Rightarrow>
              if hasDuplicate vals {} then best
              else
                (let score = keywordScore L name;
                     score1 = (if list_all (pkish L) vals then score + 5 else score)
                 in if score1 > snd best then (name, score1) else best)))"
    unfolding columnStep_def n_def prod.case Let_def by (rule refl)
  show ?thesis
    unfolding step tk n0 rows_def [symmetric] gatherValues_eq
    by (simp add: hasDuplicate_iff keywordScore_eq Let_def)
qed

lemma columnStep_eq:
  "columnStep L tbl (if checkRows \<le> 0 then 5 else checkRows) (i, Headers tbl ! i) best =
     (if qualifies tbl checkRows i \<and> columnScore L tbl checkRows i > snd best
      then (Headers tbl ! i, columnScore L tbl checkRows i) else best)"
proof -
  define c where "c = (if checkRows \<le> 0 then 5 else checkRows)"
  define R where "R = take (nat c) (Rows tbl)"
  define A where "A \<longleftrightarrow> list_all (\<lambda>row. i < length row \<and> TrimSpace (row ! i) \<noteq> []) R"
  define D where "D \<longleftrightarrow> distinct (map (\<lambda>row. TrimSpace (row ! i)) R)"
  define S where "S = 10 * int (length (keywordHits L (Headers tbl ! i))) +
                (if list_all (pkish L) (map (\<lambda>row. TrimSpace (row ! i)) R) then 5 else 0)"
  have c: "0 < c" by (simp add: c_def)
  have q: "qualifies tbl checkRows i \<longleftrightarrow> R \<noteq> [] \<and> A \<and> D"
    by (simp add: qualifies_def columnValues_def sampleRows_def R_def A_def D_def c_def)
  have sc: "columnScore L tbl checkRows i = S"
    by (simp add: columnScore_def columnValues_def sampleRows_def R_def S_def c_def)
  have st: "columnStep L tbl c (i, Headers tbl ! i) best =
      (if R = [] then best else if \<not> A then best else if \<not> D then best
       else if S > snd best then (Headers tbl ! i, S) else best)"
    unfolding columnStep_unfold [OF c] R_def [symmetric] A_def [symmetric] D_def [symmetric]
      S_def [symmetric] by (rule refl)
  show ?thesis
    unfolding c_def [symmetric] st q sc by (cases "R = []"; cases A; cases D) simp_all
qed

lemma zip_upt_nth: "zip [0..<length xs] xs = map (\<lambda>i. (i, xs ! i)) [0..<length xs]"
  by (rule nth_equalityI) simp_all

lemma columnScore_nonneg: "0 \<le> columnScore L tbl checkRows i"
  by (simp add: columnScore_def)

lemma bestAfter_Suc:
  "bestAfter L tbl checkRows (Suc k) =
     (if qualifies tbl checkRows k \<and> columnScore L tbl checkRows k > snd (bestAfter L tbl checkRows k)
      then (Headers tbl ! k, columnScore L tbl checkRows k) else bestAfter L tbl checkRows k)"
  by (simp add: bestAfter_def columnStep_eq)

lemma bestAfter_inv:
  "(if \<forall>j<k. \<not> qualifies tbl checkRows j then bestAfter L tbl checkRows k = ([], - 1)
    else \<exists>i<k. qualifies tbl checkRows i \<and>
           bestAfter L tbl checkRows k = (Headers tbl ! i, columnScore L tbl checkRows i) \<and>
           (\<forall>j<k. qualifies tbl checkRows j \<longrightarrow>
                   columnScore L tbl checkRows j \<le> columnScore L tbl checkRows i) \<and>
           (\<forall>j<i. qualifies tbl checkRows j \<longrightarrow>
                   columnScore L tbl checkRows j < columnScore L tbl checkRows i))"
proof (induction k)
  case 0
  show ?case by (simp add: bestAfter_def)
next
  case (Suc k)
  let ?q = "qualifies tbl checkRows" and ?sc = "columnScore L tbl checkRows"
  let ?b = "bestAfter L tbl checkRows"
  show ?case
  proof (cases "\<forall>j<k. \<not> ?q j")
    case none: True
    with Suc have b: "?b k = ([], - 1)" by simp
    show ?thesis
    proof (cases "?q k")
      case True
      have "?b (Suc k) = (Headers tbl ! k, ?sc k)"
        using True b columnScore_nonneg [of L tbl checkRows k]
        by (simp add: bestAfter_Suc)
      moreover have "\<forall>j<Suc k. ?q j \<longrightarrow> ?sc j \<le> ?sc k"
        using none by (auto simp: less_Suc_eq)
      moreover have "\<forall>j<k. ?q j \<longrightarrow> ?sc j < ?sc k" using none by simp
      ultimately show ?thesis using True by (auto intro!: exI [of _ k])
    next
      case False
      then have "\<forall>j<Suc k. \<not> ?q j" using none by (auto simp: less_Suc_eq)
      moreover have "?b (Suc k) = ([], - 1)" using False b by (simp add: bestAfter_Suc)
      ultimately show ?thesis by simp
    qed
  next
    case some: False
    with Suc obtain i where i: "i < k" "?q i" "?b k = (Headers tbl ! i, ?sc i)"
      and mx: "\<forall>j<k. ?q j \<longrightarrow> ?sc j \<le> ?sc i"
      and fs: "\<forall>j<i. ?q j \<longrightarrow> ?sc j < ?sc i"
      by auto
    have ex: "\<not> (\<forall>j<Suc k. \<not> ?q j)" using i by (auto simp: less_Suc_eq)
    show ?thesis
    proof (cases "?q k \<and> ?sc k > ?sc i")
      case True
      have "?b (Suc k) = (Headers tbl ! k, ?sc k)"
        using True i by (simp add: bestAfter_Suc)
      moreover have "\<forall>j<Suc k. ?q j \<longrightarrow> ?sc j \<le> ?sc k"
        using mx True by (auto simp: less_Suc_eq)
      moreover have "\<forall>j<k. ?q j \<longrightarrow> ?sc j < ?sc k"
        using mx True by fastforce
      ultimately have "\<exists>i'<Suc k. ?q i' \<and> ?b (Suc k) = (Headers tbl ! i', ?sc i') \<and>
           (\<forall>j<Suc k. ?q j \<longrightarrow> ?sc j \<le> ?sc i') \<and> (\<forall>j<i'. ?q j \<longrightarrow> ?sc j < ?sc i')"
        using True by (intro exI [of _ k]) simp
      then show ?thesis unfolding if_not_P [OF ex] .
    next
      case False
      have "?b (Suc k) = (Headers tbl ! i, ?sc i)"
        using False i by (auto simp: bestAfter_Suc)
      moreover have "\<forall>j<Suc k. ?q j \<longrightarrow> ?sc j \<le> ?sc i"
        using mx False by (auto simp: less_Suc_eq)
      ultimately have "\<exists>i'<Suc k. ?q i' \<and> ?b (Suc k) = (Headers tbl ! i', ?sc i') \<and>
           (\<forall>j<Suc k. ?q j \<longrightarrow> ?sc j \<le> ?sc i') \<and> (\<forall>j<i'. ?q j \<longrightarrow> ?sc j < ?sc i')"
        using i fs by (intro exI [of _ i]) simp
      then show ?thesis unfolding if_not_P [OF ex] .
    qed
  qed
qed

lemma Guess_eq:
  "GuessPrimaryKeyColumn L tbl checkRows =
     (if Headers tbl = [] then None
      else if fst (bestAfter L tbl checkRows (length (Headers tbl))) = [] then None
      else Some (fst (bestAfter L tbl checkRows (length (Headers tbl)))))"
  by (simp add: GuessPrimaryKeyColumn_def bestAfter_def zip_upt_nth Let_def)

lemma Guess_none:
  assumes "\<forall>j<length (Headers tbl). \<not> qualifies tbl checkRows j"
  shows "GuessPrimaryKeyColumn L tbl checkRows = None"
proof -
  have "bestAfter L tbl checkRows (length (Headers tbl)) = ([], - 1)"
    using assms bestAfter_inv [of "length (Headers tbl)" tbl checkRows L] by simp
  then show ?thesis by (simp add: Guess_eq)
qed

lemma Guess_some:
  assumes ne: "[] \<notin> set (Headers tbl)" and i: "i < length (Headers tbl)"
    and a: "qualifies tbl checkRows i \<and>
            (\<forall>j<length (Headers tbl). qualifies tbl checkRows j \<longrightarrow>
               columnScore L tbl checkRows j \<le> columnScore L tbl checkRows i) \<and>
            (\<forall>j<i. qualifies tbl checkRows j \<longrightarrow>
               columnScore L tbl checkRows j < columnScore L tbl checkRows i)"
  shows "GuessPrimaryKeyColumn L tbl checkRows = Some (Headers tbl ! i)"
proof -
  let ?q = "qualifies tbl checkRows" and ?sc = "columnScore L tbl checkRows"
  let ?n = "length (Headers tbl)"
  have ex: "\<not> (\<forall>j<?n. \<not> ?q j)" using a i by blast
  with bestAfter_inv [of ?n tbl checkRows L]
  obtain i' where i': "i' < ?n" "?q i'"
      "bestAfter L tbl checkRows ?n = (Headers tbl ! i', ?sc i')"
    and mx: "\<forall>j<?n. ?q j \<longrightarrow> ?sc j \<le> ?sc i'"
    and fs: "\<forall>j<i'. ?q j \<longrightarrow> ?sc j < ?sc i'"
    by auto
  have eq: "?sc i = ?sc i'" using a i i' mx by (meson order_antisym)
  have "i' = i"
  proof (rule ccontr)
    assume "i' \<noteq> i"
    then consider "i' < i" | "i < i'" by linarith
    then show False
    proof cases
      case 1
      with a i' have "?sc i' < ?sc i" by blast
      with eq show False by simp
    next
      case 2
      with fs a have "?sc i < ?sc i'" by blast
      with eq show False by simp
    qed
  qed
  moreover have "Headers tbl ! i \<noteq> []" using ne i by (metis nth_mem)
  moreover have "Headers tbl \<noteq> []" using i by auto
  ultimately show ?thesis
    using i' by (simp add: Guess_eq)
qed

lemma export_fails_terminally:
  "\<exists>m e. compute_exportFailed err = (m, Returns e) \<and> IsTerminal e \<and>
     (\<forall>job. Status (applyMutator m job) = CompareJobStatusFailed) \<and>
     (\<forall>msg st. handleOne (\<lambda>jid. Returns e) msg st = ack st (MsgID msg))"
proof -
  have "IsTerminal (Terminal (Some err))"
    by (simp add: IsTerminal_def Terminal_def)
  moreover have "Status (applyMutator (ComputeFail (errorText err)) job) = CompareJobStatusFailed"
    for job
    by (simp add: compute_fail_def)
  moreover have "handleOne (\<lambda>jid. Returns (Terminal (Some err))) msg st = ack st (MsgID msg)"
    for msg st
    by (simp add: handleOne_def IsTerminal_def Terminal_def Let_def split: option.splits)
  ultimately show ?thesis
    unfolding compute_exportFailed_def by blast
qed

text \<open>
  C3, amended. Over file 1's header row (no header name is empty) and the sampled rows, a
  column scores 10 for every keyword of the closed set that its lower-cased header
  contains, plus 5 if all its sampled values are integer-like, finite integer-valued floats
  or Unicode alphanumeric. A column qualifies only if at least one data row was sampled and
  none of its sampled values is missing, blank or equal to another one; on a sheet with a
  header row alone no column qualifies. If no column qualifies the inference fails, and the
  operation fails terminally: the export of the compare job returns an error, the compute
  worker marks the job failed and returns a terminal error, and the consumer acknowledges
  the message. Otherwise the result is the qualifying column of highest score, the earliest
  one among those of equal score.
\<close>

theorem GuessPrimaryKeyColumn_picks:
  assumes "[] \<notin> set (Headers tbl)"
  shows "((\<forall>j<length (Headers tbl). \<not> qualifies tbl checkRows j)
            \<longrightarrow> GuessPrimaryKeyColumn L tbl checkRows = None) \<and>
         ((\<forall>j<length (Headers tbl). \<not> qualifies tbl 5 j)
            \<longrightarrow> export_keyOfFile1 L tbl = Inl (readFile1Failed cannotGuessKey) \<and>
                (\<exists>m e. compute_exportFailed (readFile1Failed cannotGuessKey) = (m, Returns e) \<and>
                   IsTerminal e \<and>
                   (\<forall>job. Status (applyMutator m job) = CompareJobStatusFailed) \<and>
                   (\<forall>msg st. handleOne (\<lambda>jid. Returns e) msg st = ack st (MsgID msg)))) \<and>
         (sampleRows tbl checkRows = [] \<longrightarrow> (\<forall>j. \<not> qualifies tbl checkRows j)) \<and>
         (\<forall>i<length (Headers tbl).
            qualifies tbl checkRows i \<and>
            (\<forall>j<length (Headers tbl). qualifies tbl checkRows j \<longrightarrow>
               columnScore L tbl checkRows j \<le> columnScore L tbl checkRows i) \<and>
            (\<forall>j<i. qualifies tbl checkRows j \<longrightarrow>
               columnScore L tbl checkRows j < columnScore L tbl checkRows i)
            \<longrightarrow> GuessPrimaryKeyColumn L tbl checkRows = Some (Headers tbl ! i))"
proof (intro conjI allI impI)
  assume "\<forall>j<length (Headers tbl). \<not> qualifies tbl checkRows j"
  then show "GuessPrimaryKeyColumn L tbl checkRows = None" by (rule Guess_none)
next
  assume "\<forall>j<length (Headers tbl). \<not> qualifies tbl 5 j"
  then have "GuessPrimaryKeyColumn L tbl 5 = None" by (rule Guess_none)
  then show "export_keyOfFile1 L tbl = Inl (readFile1Failed cannotGuessKey)"
    by (simp add: export_keyOfFile1_def loadKeyedSheet_guess_def)
next
  show "\<exists>m e. compute_exportFailed (readFile1Failed cannotGuessKey) = (m, Returns e) \<and>
      IsTerminal e \<and>
      (\<forall>job. Status (applyMutator m job) = CompareJobStatusFailed) \<and>
      (\<forall>msg st. handleOne (\<lambda>jid. Returns e) msg st = ack st (MsgID msg))"
    by (rule export_fails_terminally)
next
  fix j
  assume "sampleRows tbl checkRows = []"
  then show "\<not> qualifies tbl checkRows j" by (simp add: qualifies_def)
next
  fix i
  assume "i < length (Headers tbl)"
    and "qualifies tbl checkRows i \<and>
      (\<forall>j<length (Headers tbl). qualifies tbl checkRows j \<longrightarrow>
         columnScore L tbl checkRows j \<le> columnScore L tbl checkRows i) \<and>
      (\<forall>j<i. qualifies tbl checkRows j \<longrightarrow>
         columnScore L tbl checkRows j < columnScore L tbl checkRows i)"
  then show "GuessPrimaryKeyColumn L tbl checkRows = Some (Headers tbl ! i)"
    by (rule Guess_some [OF assms])
qed

lemmas trim_noop_eval = TrimSpace_noop spacePrefixLen_def spaceSuffixLen_def isASCIISpace_def

lemma example_sampleRows: "sampleRows exampleTable 5 = [[''1'', ''A001''], [''2'', ''A002'']]"
  by (simp add: sampleRows_def exampleTable_def)

lemma example_trims:
  "TrimSpace ''1'' = ''1''" "TrimSpace ''2'' = ''2''"
  "TrimSpace ''A001'' = ''A001''" "TrimSpace ''A002'' = ''A002''"
  by (simp_all add: trim_noop_eval)

lemma example_columnValues:
  "columnValues exampleTable 5 0 = [''1'', ''2'']"
  "columnValues exampleTable 5 (Suc 0) = [''A001'', ''A002'']"
  by (simp_all add: columnValues_def example_sampleRows example_trims)

lemma example_qualifies: "qualifies exampleTable 5 0" "qualifies exampleTable 5 (Suc 0)"
  by (simp_all add: qualifies_def example_columnValues example_sampleRows example_trims)

lemma example_keywordHits:
  "length (keywordHits asciiStd (Headers exampleTable ! 0)) = 1"
  "length (keywordHits asciiStd (Headers exampleTable ! Suc 0)) = 2"
  by (simp_all add: keywordHits_def exampleTable_def primaryKeyCandidates_def lower_eval
        asciiStd_def)

lemma example_pkish:
  "pkish asciiStd ''1''" "pkish asciiStd ''2''" "pkish asciiStd ''A001''" "pkish asciiStd ''A002''"
  by (simp_all add: pkish_def isIntegerLikeString_def isDigitByte_def isAlnumUnicode_def
        asciiStd_def)

lemma example_scores:
  "columnScore asciiStd exampleTable 5 0 = 15"
  "columnScore asciiStd exampleTable 5 (Suc 0) = 25"
  "claimedScore asciiStd exampleTable 5 0 = 15"
  "claimedScore asciiStd exampleTable 5 (Suc 0) = 15"
  using example_keywordHits
  by (simp_all add: columnScore_def claimedScore_def example_columnValues example_pkish
        flip: length_greater_0_conv)

text \<open>
  C3, as claimed: a header scores 10 if it contains any keyword. In the example both
  columns qualify and both score 15 in that reading, so the earlier one, the serial number,
  would be picked. The code picks the second: its header contains two keywords (the word
  for number and the word for asset number) and scores 25.
\<close>

theorem keyword_score_counterexample:
  "qualifies exampleTable 5 0 \<and> qualifies exampleTable 5 1 \<and>
   claimedScore asciiStd exampleTable 5 0 = 15 \<and>
   claimedScore asciiStd exampleTable 5 1 = 15 \<and>
   GuessPrimaryKeyColumn asciiStd exampleTable 5 = Some (Headers exampleTable ! 1)"
proof -
  have h: "length (Headers exampleTable) = Suc (Suc 0)"
    by (simp add: exampleTable_def)
  have "bestAfter asciiStd exampleTable 5 (Suc (Suc 0)) = (Headers exampleTable ! Suc 0, 25)"
    by (simp add: bestAfter_Suc example_qualifies example_scores) (simp add: bestAfter_def)
  then have "GuessPrimaryKeyColumn asciiStd exampleTable 5 = Some (Headers exampleTable ! Suc 0)"
    unfolding Guess_eq h by (simp add: exampleTable_def)
  then show ?thesis
    using example_qualifies example_scores by simp
qed

theorem GuessPrimaryKeyColumn_picks_witness:
  "columnScore asciiStd exampleTable 5 0 = 15 \<and> columnScore asciiStd exampleTable 5 1 = 25 \<and>
   GuessPrimaryKeyColumn asciiStd exampleTable 5 =
     Some [CHR 0xE8, CHR 0xB5, CHR 0x84, CHR 0xE4, CHR 0xBA, CHR 0xA7, CHR 0xE7, CHR 0xBC,
           CHR 0x96, CHR 0xE5, CHR 0x8F, CHR 0xB7] \<and>
   sampleRows \<lparr>Headers = [''id''], Rows = []\<rparr> 5 = [] \<and>
   GuessPrimaryKeyColumn asciiStd \<lparr>Headers = [''id''], Rows = []\<rparr> 5 = None \<and>
   export_keyOfFile1 asciiStd \<lparr>Headers = [''id''], Rows = []\<rparr> =
     Inl (readFile1Failed cannotGuessKey) \<and>
   columnValues \<lparr>Headers = [''id''], Rows = [[''7''], [''7'']]\<rparr> 5 0 = [''7'', ''7''] \<and>
   GuessPrimaryKeyColumn asciiStd \<lparr>Headers = [''id''], Rows = [[''7''], [''7'']]\<rparr> 5 = None"
proof -
  have ne: "[] \<notin> set (Headers exampleTable)" by (simp add: exampleTable_def)
  have h: "length (Headers exampleTable) = Suc (Suc 0)" by (simp add: exampleTable_def)
  have mx: "\<forall>j<length (Headers exampleTable). qualifies exampleTable 5 j \<longrightarrow>
      columnScore asciiStd exampleTable 5 j \<le> columnScore asciiStd exampleTable 5 (Suc 0)"
    unfolding h by (simp add: less_Suc_eq example_scores)
  have fs: "\<forall>j<Suc 0. qualifies exampleTable 5 j \<longrightarrow>
      columnScore asciiStd exampleTable 5 j < columnScore asciiStd exampleTable 5 (Suc 0)"
    by (simp add: example_scores)
  have lt: "Suc 0 < length (Headers exampleTable)" unfolding h by simp
  note picks = GuessPrimaryKeyColumn_picks [OF ne, of 5 asciiStd]
  have g: "GuessPrimaryKeyColumn asciiStd exampleTable 5 = Some (Headers exampleTable ! Suc 0)"
    using picks [THEN conjunct2, THEN conjunct2, THEN conjunct2, rule_format, OF lt]
      example_qualifies(2) mx fs by blast
  let ?T0 = "\<lparr>Headers = [''id''], Rows = []\<rparr>"
  have ne0: "[] \<notin> set (Headers ?T0)" by simp
  note empty = GuessPrimaryKeyColumn_picks [OF ne0, of 5 asciiStd]
  have s0: "sampleRows ?T0 5 = []" by (simp add: sampleRows_def)
  have nq0: "\<forall>j<length (Headers ?T0). \<not> qualifies ?T0 5 j"
    using empty [THEN conjunct2, THEN conjunct2, THEN conjunct1] s0 by blast
  have g0: "GuessPrimaryKeyColumn asciiStd ?T0 5 = None"
    using empty [THEN conjunct1] nq0 by blast
  have e0: "export_keyOfFile1 asciiStd ?T0 = Inl (readFile1Failed cannotGuessKey)"
    using empty [THEN conjunct2, THEN conjunct1] nq0 by blast
  let ?T1 = "\<lparr>Headers = [''id''], Rows = [[''7''], [''7'']]\<rparr>"
  have ne1: "[] \<notin> set (Headers ?T1)" by simp
  have t7: "TrimSpace ''7'' = ''7''" by (simp add: trim_noop_eval)
  have v1: "columnValues ?T1 5 0 = [''7'', ''7'']"
    by (simp add: columnValues_def sampleRows_def t7)
  have nq1: "\<forall>j<length (Headers ?T1). \<not> qualifies ?T1 5 j"
    by (simp add: qualifies_def v1)
  have g1: "GuessPrimaryKeyColumn asciiStd ?T1 5 = None"
    using GuessPrimaryKeyColumn_picks [OF ne1, of 5 asciiStd, THEN conjunct1] nq1 by blast
  have gx: "GuessPrimaryKeyColumn asciiStd exampleTable 5 =
     Some [CHR 0xE8, CHR 0xB5, CHR 0x84, CHR 0xE4, CHR 0xBA, CHR 0xA7, CHR 0xE7, CHR 0xBC,
           CHR 0x96, CHR 0xE5, CHR 0x8F, CHR 0xB7]"
    using g by (simp add: exampleTable_def)
  have sc: "columnScore asciiStd exampleTable 5 0 = 15"
    "columnScore asciiStd exampleTable 5 1 = 25"
    using example_scores by simp_all
  show ?thesis
    using sc gx s0 g0 e0 v1 g1 by blast
qed

section \<open>The diff engine\<close>

subsection \<open>The key partition\<close>






subsection \<open>The ordered union of the columns\<close>






subsection \<open>Header positions\<close>




subsection \<open>The artifacts\<close>


subsection \<open>The Added and the Removed sheet\<close>




subsection \<open>The Changed sheet\<close>








subsection \<open>The three sheets\<close>





subsection \<open>The example\<close>









end
